theory Spec2Isabelle
  imports Main "HOL-Library.Sublist"
begin

section \<open>The Deployer of terrariums (src/deployer.ts)\<close>

text \<open>
  The class \<^verbatim>\<open>Deployer\<close> uploads contract bytecode (\<^verbatim>\<open>storeCode\<close>) and
  instantiates contracts (\<^verbatim>\<open>instantiate\<close>). Both methods sign a transaction,
  broadcast it, wait for its inclusion, read a value out of the JSON raw log of the
  included transaction and record it in the reference store.

  The embedding is shallow. Values read out of the raw log are untyped JavaScript
  values (\<open>jsval\<close>); a thrown exception is the left summand of a sum; the mutable
  surroundings (reference store, files written by it, working directory, and the
  sequence of calls made to collaborators) are a record \<open>world\<close> passed through.
  Everything the Deployer consumes but does not implement (the ledger client, the file
  system, \<^verbatim>\<open>path.join\<close>, \<^verbatim>\<open>JSON.parse\<close>, \<^verbatim>\<open>parseInt\<close>, the block-inclusion
  waiter of \<^verbatim>\<open>utils.js\<close>) is a field of the record \<open>env\<close>, so every theorem
  holds for any behaviour of these collaborators.
\<close>

subsection \<open>JavaScript values and exceptions\<close>

text \<open>
  Numbers are restricted to integers: the code never computes with a number taken from
  a log, it only compares and stores values.
\<close>

datatype jsval =
    JUndefined
  | JNull
  | JBool bool
  | JNum int
  | JStr string
  | JArr "jsval list"
  | JObj "(string \<times> jsval) list"

datatype js_error =
    Error string
  | TypeError string
  | SyntaxError string

definition bindE :: "'e + 'a \<Rightarrow> ('a \<Rightarrow> 'e + 'b) \<Rightarrow> 'e + 'b" where
  "bindE r f = (case r of Inl e \<Rightarrow> Inl e | Inr x \<Rightarrow> f x)"

text \<open>\<^verbatim>\<open>`${e}`\<close> for an error object: \<^verbatim>\<open>Error.prototype.toString\<close>.\<close>

definition name_and_message :: "string \<Rightarrow> string \<Rightarrow> string" where
  "name_and_message n m = (if m = [] then n else n @ '': '' @ m)"

fun error_to_string :: "js_error \<Rightarrow> string" where
  "error_to_string (Error m) = name_and_message ''Error'' m"
| "error_to_string (TypeError m) = name_and_message ''TypeError'' m"
| "error_to_string (SyntaxError m) = name_and_message ''SyntaxError'' m"

text \<open>A \<^verbatim>\<open>TypeError\<close> with a message.\<close>

fun type_error :: "js_error \<Rightarrow> bool" where
  "type_error (TypeError m) = (m \<noteq> [])"
| "type_error (Error m) = False"
| "type_error (SyntaxError m) = False"

text \<open>
  A JavaScript number passed by a caller as a code id or an account sequence: an
  integer, or \<^verbatim>\<open>NaN\<close>. It is falsy when it is 0 or \<^verbatim>\<open>NaN\<close>.
\<close>

datatype number = Num int | NaN

fun truthy_number :: "number \<Rightarrow> bool" where
  "truthy_number (Num n) = (n \<noteq> 0)"
| "truthy_number NaN = False"

text \<open>JavaScript truthiness, as used by \<^verbatim>\<open>!x\<close>, \<^verbatim>\<open>x ? a : b\<close> and \<^verbatim>\<open>x || y\<close>.\<close>

fun falsy :: "jsval \<Rightarrow> bool" where
  "falsy JUndefined = True"
| "falsy JNull = True"
| "falsy (JBool b) = (\<not> b)"
| "falsy (JNum n) = (n = 0)"
| "falsy (JStr s) = (s = [])"
| "falsy (JArr xs) = False"
| "falsy (JObj kvs) = False"

text \<open>
  The \<^verbatim>\<open>TypeError\<close> of reading a property of \<^verbatim>\<open>undefined\<close> or \<^verbatim>\<open>null\<close>, with the
  wording of V8 (the character \<open>0x27\<close> is the single quote).
\<close>

definition cannot_read :: "jsval \<Rightarrow> string \<Rightarrow> js_error" where
  "cannot_read v p =
     TypeError (''Cannot read properties of ''
       @ (if v = JNull then ''null'' else ''undefined'')
       @ '' (reading '' @ [CHR 0x27] @ p @ [CHR 0x27] @ '')'')"

text \<open>
  \<^verbatim>\<open>x.p\<close> for the property names the Deployer reads (\<^verbatim>\<open>events\<close>, \<^verbatim>\<open>attributes\<close>,
  \<^verbatim>\<open>type\<close>, \<^verbatim>\<open>key\<close>, \<^verbatim>\<open>value\<close>), none of which is a built-in property of a
  primitive, an array or a plain object: it throws on \<^verbatim>\<open>undefined\<close> and \<^verbatim>\<open>null\<close>,
  reads an own property of an object, and is \<^verbatim>\<open>undefined\<close> otherwise.
\<close>

fun get_prop :: "jsval \<Rightarrow> string \<Rightarrow> js_error + jsval" where
  "get_prop JUndefined p = Inl (cannot_read JUndefined p)"
| "get_prop JNull p = Inl (cannot_read JNull p)"
| "get_prop (JObj kvs) p = Inr (case map_of kvs p of None \<Rightarrow> JUndefined | Some v \<Rightarrow> v)"
| "get_prop (JBool b) p = Inr JUndefined"
| "get_prop (JNum n) p = Inr JUndefined"
| "get_prop (JStr s) p = Inr JUndefined"
| "get_prop (JArr xs) p = Inr JUndefined"

text \<open>\<^verbatim>\<open>x[0]\<close>: the first element of an array, the first character of a string.\<close>

fun index0 :: "jsval \<Rightarrow> js_error + jsval" where
  "index0 JUndefined = Inl (cannot_read JUndefined ''0'')"
| "index0 JNull = Inl (cannot_read JNull ''0'')"
| "index0 (JArr xs) = Inr (case xs of [] \<Rightarrow> JUndefined | x # _ \<Rightarrow> x)"
| "index0 (JStr s) = Inr (case s of [] \<Rightarrow> JUndefined | c # _ \<Rightarrow> JStr [c])"
| "index0 (JObj kvs) = Inr (case map_of kvs ''0'' of None \<Rightarrow> JUndefined | Some v \<Rightarrow> v)"
| "index0 (JBool b) = Inr JUndefined"
| "index0 (JNum n) = Inr JUndefined"

text \<open>
  \<^verbatim>\<open>x.find(cb)\<close>. Only an array has a callable \<^verbatim>\<open>find\<close>; the callback may throw,
  which ends the search.
\<close>

fun find_loop :: "(jsval \<Rightarrow> js_error + bool) \<Rightarrow> jsval list \<Rightarrow> js_error + jsval" where
  "find_loop cb [] = Inr JUndefined"
| "find_loop cb (x # xs) =
     (case cb x of
        Inl e \<Rightarrow> Inl e
      | Inr b \<Rightarrow> if b then Inr x else find_loop cb xs)"

fun js_find :: "jsval \<Rightarrow> (jsval \<Rightarrow> js_error + bool) \<Rightarrow> js_error + jsval" where
  "js_find JUndefined cb = Inl (cannot_read JUndefined ''find'')"
| "js_find JNull cb = Inl (cannot_read JNull ''find'')"
| "js_find (JArr xs) cb = find_loop cb xs"
| "js_find (JObj kvs) cb = Inl (TypeError ''find is not a function'')"
| "js_find (JBool b) cb = Inl (TypeError ''find is not a function'')"
| "js_find (JNum n) cb = Inl (TypeError ''find is not a function'')"
| "js_find (JStr s) cb = Inl (TypeError ''find is not a function'')"

text \<open>The callbacks \<^verbatim>\<open>(x) => x.p === "s"\<close>.\<close>

definition prop_is :: "string \<Rightarrow> string \<Rightarrow> jsval \<Rightarrow> js_error + bool" where
  "prop_is p s x = bindE (get_prop x p) (\<lambda>v. Inr (v = JStr s))"

subsection \<open>Data of the Deployer and of its collaborators\<close>

record build_info =
  src :: string

record txinfo =
  tx_raw_log :: string

text \<open>
  The result of \<^verbatim>\<open>broadcastSync\<close>; \<open>bc_code\<close> is \<open>None\<close> when the object has no
  property \<^verbatim>\<open>code\<close>.
\<close>

record broadcast_result =
  bc_txhash :: string
  bc_raw_log :: string
  bc_code :: "int option"

type_synonym coins = string
type_synonym tx = string

datatype msg =
    MsgMigrateCode string number string
  | MsgStoreCode string string
  | MsgInstantiateContract string "string option" "int option" jsval "coins option" string

record tx_options =
  msgs :: "msg list"
  tx_sequence :: "number option"
  feeDenoms :: "string list option"

record instantiate_options =
  opt_sequence :: "number option"
  opt_admin :: "string option"
  opt_coins :: "coins option"
  opt_label :: "string option"

datatype spinner = DefaultDots | Custom nat

datatype spinner_call = Start | Succeed | Fail

text \<open>
  The argument \<^verbatim>\<open>spinner: Ora | undefined = ora({ spinner: "dots" })\<close> as the caller
  passes it. A default initialiser runs when the argument is omitted and when it is
  \<^verbatim>\<open>undefined\<close>; only \<^verbatim>\<open>null\<close> leaves the method without a spinner.
\<close>

datatype spinner_arg = SpinnerOmitted | SpinnerUndefined | SpinnerNull | SpinnerGiven spinner

fun default_spinner :: "spinner_arg \<Rightarrow> spinner option" where
  "default_spinner SpinnerOmitted = Some DefaultDots"
| "default_spinner SpinnerUndefined = Some DefaultDots"
| "default_spinner SpinnerNull = None"
| "default_spinner (SpinnerGiven s) = Some s"

text \<open>Calls made to collaborators, in the order they are made.\<close>

datatype action =
    Spinner spinner spinner_call
  | Chdir string
  | CreateAndSignTx tx_options
  | BroadcastSync tx
  | WaitForInclusion string
  | QuerySequence
  | SetCodeId string string jsval
  | SetAddress string string jsval
  | SaveRefs string "string list"

text \<open>
  Modelled from the spec: the class \<^verbatim>\<open>Refs\<close> of \<^verbatim>\<open>refs.js\<close> is not among the
  sources. The spec (4.4) describes it as a mapping from (network, contract name) to a
  code id and an address, with accessors working on the in-memory snapshot, and
  \<^verbatim>\<open>saveRefs\<close> writing the full snapshot to a primary path and identical copies to
  the secondary paths.
\<close>

record refs_store =
  codeIds :: "string \<times> string \<rightharpoonup> jsval"
  addresses :: "string \<times> string \<rightharpoonup> jsval"

definition getCodeId :: "refs_store \<Rightarrow> string \<Rightarrow> string \<Rightarrow> jsval" where
  "getCodeId r n c = (case codeIds r (n, c) of None \<Rightarrow> JUndefined | Some v \<Rightarrow> v)"

definition setCodeId :: "refs_store \<Rightarrow> string \<Rightarrow> string \<Rightarrow> jsval \<Rightarrow> refs_store" where
  "setCodeId r n c v = r\<lparr>codeIds := (codeIds r)((n, c) \<mapsto> v)\<rparr>"


definition setAddress :: "refs_store \<Rightarrow> string \<Rightarrow> string \<Rightarrow> jsval \<Rightarrow> refs_store" where
  "setAddress r n c v = r\<lparr>addresses := (addresses r)((n, c) \<mapsto> v)\<rparr>"

fun write_all :: "refs_store \<Rightarrow> string list \<Rightarrow> (string \<rightharpoonup> refs_store) \<Rightarrow> (string \<rightharpoonup> refs_store)" where
  "write_all r [] d = d"
| "write_all r (p # ps) d = write_all r ps (d(p \<mapsto> r))"

definition saveRefs :: "refs_store \<Rightarrow> string \<Rightarrow> string list \<Rightarrow> (string \<rightharpoonup> refs_store) \<Rightarrow> (string \<rightharpoonup> refs_store)" where
  "saveRefs r base copies d = write_all r (base # copies) d"

text \<open>
  What a Deployer is constructed with (\<open>network\<close>, the configuration, the signer)
  and the runtime it runs on. \<open>chdir\<close> gives the exception of \<^verbatim>\<open>process.chdir\<close>, if
  any; \<open>readFileBase64 p\<close> is \<^verbatim>\<open>readFileSync(p).toString("base64")\<close>; \<open>JSON_parse\<close>
  gives the message of the \<^verbatim>\<open>SyntaxError\<close> on the left; \<open>parseInt\<close> is
  \<^verbatim>\<open>parseInt(x, 10)\<close>, with \<open>None\<close> for \<^verbatim>\<open>NaN\<close>; \<open>waitForInclusionInBlock\<close> gives
  \<open>None\<close> for \<^verbatim>\<open>undefined\<close>.
\<close>

record env =
  network :: string
  contracts :: "string \<rightharpoonup> build_info"
  base_path :: string
  copy_refs_to :: "string list"
  accAddress :: string
  arm64 :: bool
  path_join :: "string list \<Rightarrow> string"
  chdir :: "string \<Rightarrow> js_error option"
  existsSync :: "string \<Rightarrow> bool"
  readFileBase64 :: "string \<Rightarrow> js_error + string"
  createAndSignTx :: "tx_options \<Rightarrow> js_error + tx"
  broadcastSync :: "tx \<Rightarrow> js_error + broadcast_result"
  waitForInclusionInBlock :: "string \<Rightarrow> js_error + txinfo option"
  signer_sequence :: "js_error + number"
  JSON_parse :: "string \<Rightarrow> string + jsval"
  parseInt :: "jsval \<Rightarrow> int option"

record world =
  refs :: refs_store
  disk :: "string \<rightharpoonup> refs_store"
  cwd :: string
  trace :: "action list"

definition emit :: "action \<Rightarrow> world \<Rightarrow> world" where
  "emit a w = w\<lparr>trace := trace w @ [a]\<rparr>"

text \<open>\<^verbatim>\<open>spinner?.m(...)\<close>: nothing happens without a spinner. The text shown is not modelled.\<close>

definition spin :: "spinner option \<Rightarrow> spinner_call \<Rightarrow> world \<Rightarrow> world" where
  "spin sp c w = (case sp of None \<Rightarrow> w | Some s \<Rightarrow> emit (Spinner s c) w)"

text \<open>\<^verbatim>\<open>spinner.m(...)\<close>, without the optional chaining: it throws without a spinner.\<close>

definition spin_unguarded :: "spinner option \<Rightarrow> spinner_call \<Rightarrow> string \<Rightarrow> world \<Rightarrow> js_error + world" where
  "spin_unguarded sp c m w =
     (case sp of None \<Rightarrow> Inl (cannot_read JNull m) | Some s \<Rightarrow> Inr (emit (Spinner s c) w))"

text \<open>\<^verbatim>\<open>this.refs.saveRefs(this.config.refs.base_path, this.config.refs.copy_refs_to)\<close>\<close>

definition save :: "env \<Rightarrow> world \<Rightarrow> world" where
  "save env w =
     emit (SaveRefs (base_path env) (copy_refs_to env))
       (w\<lparr>disk := saveRefs (refs w) (base_path env) (copy_refs_to env) (disk w)\<rparr>)"

subsection \<open>storeCode\<close>

text \<open>Lines 129-134: the name of the bytecode file.\<close>

definition wasmByteCodeFilename :: "bool \<Rightarrow> string \<Rightarrow> string" where
  "wasmByteCodeFilename arm contract =
     map (\<lambda>c. if c = CHR ''-'' then CHR ''_'' else c) contract
       @ (if arm then ''-arm64'' else [])
       @ ''.wasm''"

text \<open>\<^verbatim>\<open>migrateCodeId ? new MsgMigrateCode(...) : new MsgStoreCode(...)\<close> (lines 144-150).\<close>

definition store_msg :: "string \<Rightarrow> number option \<Rightarrow> string \<Rightarrow> msg" where
  "store_msg sender migrateCodeId wasmByteCode =
     (case migrateCodeId of
        None \<Rightarrow> MsgStoreCode sender wasmByteCode
      | Some n \<Rightarrow> if truthy_number n then MsgMigrateCode sender n wasmByteCode
                  else MsgStoreCode sender wasmByteCode)"

text \<open>
  Lines 119-160: up to the check of the broadcast result. On success the result is
  the working directory at entry and the broadcast result.
\<close>

definition storeCode_submit ::
  "env \<Rightarrow> world \<Rightarrow> string \<Rightarrow> number option \<Rightarrow> spinner option
     \<Rightarrow> (js_error + string \<times> broadcast_result) \<times> world" where
  "storeCode_submit env w contract migrateCodeId spinner =
     (case contracts env contract of
        None \<Rightarrow>
          (Inl (Error (''Contract '' @ contract @ '' build information not found in config file.'')), w)
      | Some buildInfo \<Rightarrow>
         (let contractFolder = path_join env [cwd w, src buildInfo];
              cwd0 = cwd w;
              w1 = emit (Chdir contractFolder) w
          in (case chdir env contractFolder of
                Some e \<Rightarrow> (Inl e, w1)
              | None \<Rightarrow>
                 (let w2 = w1\<lparr>cwd := contractFolder\<rparr>;
                      wasm = path_join env
                        [contractFolder, ''artifacts'', wasmByteCodeFilename (arm64 env) contract]
                  in if \<not> existsSync env wasm
                     then (Inl (Error (''WASM file '' @ [CHR 0x22] @ wasm @ [CHR 0x22]
                                  @ '' not found in artifacts folder'')), w2)
                     else (case readFileBase64 env wasm of
                             Inl e \<Rightarrow> (Inl e, w2)
                           | Inr wasmByteCode \<Rightarrow>
                              (let w3 = spin spinner Start w2;
                                   opts = \<lparr>msgs = [store_msg (accAddress env) migrateCodeId wasmByteCode],
                                           tx_sequence = None, feeDenoms = None\<rparr>;
                                   w4 = emit (CreateAndSignTx opts) w3
                               in (case createAndSignTx env opts of
                                     Inl e \<Rightarrow> (Inl e, w4)
                                   | Inr storeCodeTx \<Rightarrow>
                                      (let w5 = emit (BroadcastSync storeCodeTx) w4
                                       in (case broadcastSync env storeCodeTx of
                                             Inl e \<Rightarrow> (Inl e, w5)
                                           | Inr result \<Rightarrow>
                                               if bc_code result \<noteq> None
                                               then (Inl (Error (''Error storing wasm file for '' @ contract
                                                            @ '':'' @ [CHR 0x0A] @ bc_raw_log result)),
                                                     spin spinner Fail w5)
                                               else (Inr (cwd0, result), w5))))))))))"

text \<open>
  Lines 166-170: \<^verbatim>\<open>JSON.parse((res && res.raw_log) || "")[0].events.find(...)
  .attributes.find(...).value\<close>.
\<close>

definition raw_log_or_empty :: "txinfo option \<Rightarrow> string" where
  "raw_log_or_empty res =
     (case res of None \<Rightarrow> [] | Some r \<Rightarrow> if tx_raw_log r = [] then [] else tx_raw_log r)"

definition parse :: "env \<Rightarrow> string \<Rightarrow> js_error + jsval" where
  "parse env s = (case JSON_parse env s of Inl m \<Rightarrow> Inl (SyntaxError m) | Inr v \<Rightarrow> Inr v)"

definition savedCodeId :: "env \<Rightarrow> txinfo option \<Rightarrow> js_error + jsval" where
  "savedCodeId env res =
     bindE (parse env (raw_log_or_empty res)) (\<lambda>parsed.
     bindE (index0 parsed) (\<lambda>entry.
     bindE (get_prop entry ''events'') (\<lambda>events.
     bindE (js_find events (prop_is ''type'' ''store_code'')) (\<lambda>event.
     bindE (get_prop event ''attributes'') (\<lambda>attributes.
     bindE (js_find attributes (prop_is ''key'' ''code_id'')) (\<lambda>attr.
     get_prop attr ''value''))))))"

text \<open>Lines 165-181: the body of the \<^verbatim>\<open>try\<close>.\<close>

definition storeCode_try ::
  "env \<Rightarrow> world \<Rightarrow> string \<Rightarrow> string \<Rightarrow> spinner option \<Rightarrow> txinfo option
     \<Rightarrow> (js_error + jsval) \<times> world" where
  "storeCode_try env w contract cwd0 spinner res =
     (case savedCodeId env res of
        Inl e \<Rightarrow> (Inl e, w)
      | Inr v \<Rightarrow>
         (let w1 = emit (Chdir cwd0) w
          in (case chdir env cwd0 of
                Some e \<Rightarrow> (Inl e, w1)
              | None \<Rightarrow>
                 (case spin_unguarded spinner Succeed ''succeed'' (w1\<lparr>cwd := cwd0\<rparr>) of
                    Inl e \<Rightarrow> (Inl e, w1\<lparr>cwd := cwd0\<rparr>)
                  | Inr w2 \<Rightarrow>
                     (let w3 = emit (SetCodeId (network env) contract v)
                                 (w2\<lparr>refs := setCodeId (refs w2) (network env) contract v\<rparr>)
                      in (Inr v, save env w3))))))"

text \<open>Lines 182-191: the \<^verbatim>\<open>catch\<close>.\<close>

definition storeCode_catch ::
  "world \<Rightarrow> spinner option \<Rightarrow> js_error \<Rightarrow> (js_error + jsval) \<times> world" where
  "storeCode_catch w spinner e =
     (case spin_unguarded spinner Fail ''fail'' w of
        Inl e' \<Rightarrow> (Inl e', w)
      | Inr w1 \<Rightarrow>
          (case e of
             SyntaxError m \<Rightarrow>
               (Inl (Error (''Error parsing raw_log from store_code transaction: '' @ m)), w1)
           | _ \<Rightarrow> (Inl (Error (''Unexpcted Error: '' @ error_to_string e)), w1)))"

definition storeCode_finish ::
  "env \<Rightarrow> world \<Rightarrow> string \<Rightarrow> string \<Rightarrow> spinner option \<Rightarrow> txinfo option
     \<Rightarrow> (js_error + jsval) \<times> world" where
  "storeCode_finish env w contract cwd0 spinner res =
     (case storeCode_try env w contract cwd0 spinner res of
        (Inr v, w') \<Rightarrow> (Inr v, w')
      | (Inl e, w') \<Rightarrow> storeCode_catch w' spinner e)"

text \<open>\<^verbatim>\<open>storeCode(contract, migrateCodeId?, spinner = ora({ spinner: "dots" }))\<close>\<close>

definition storeCode ::
  "env \<Rightarrow> world \<Rightarrow> string \<Rightarrow> number option \<Rightarrow> spinner_arg \<Rightarrow> (js_error + jsval) \<times> world" where
  "storeCode env w contract migrateCodeId spinner_arg =
     (let spinner = default_spinner spinner_arg
      in (case storeCode_submit env w contract migrateCodeId spinner of
            (Inl e, w1) \<Rightarrow> (Inl e, w1)
          | (Inr (cwd0, result), w1) \<Rightarrow>
             (let w2 = emit (WaitForInclusion (bc_txhash result)) w1
              in (case waitForInclusionInBlock env (bc_txhash result) of
                    Inl e \<Rightarrow> (Inl e, w2)
                  | Inr res \<Rightarrow>
                      storeCode_finish env (spin spinner Succeed w2) contract cwd0 spinner res))))"

subsection \<open>instantiate\<close>

text \<open>
  Line 206: \<^verbatim>\<open>options?.sequence || (await this.signer.sequence())\<close>. The right
  operand is evaluated only when the left one is falsy, that is \<^verbatim>\<open>undefined\<close>, 0 or
  \<^verbatim>\<open>NaN\<close>.
\<close>

definition supplied_sequence :: "instantiate_options option \<Rightarrow> number option" where
  "supplied_sequence options = (case options of None \<Rightarrow> None | Some opts \<Rightarrow> opt_sequence opts)"

definition manualSequence ::
  "env \<Rightarrow> world \<Rightarrow> instantiate_options option \<Rightarrow> (js_error + number) \<times> world" where
  "manualSequence env w options =
     (case supplied_sequence options of
        None \<Rightarrow> (signer_sequence env, emit QuerySequence w)
      | Some n \<Rightarrow>
          if truthy_number n then (Inr n, w) else (signer_sequence env, emit QuerySequence w))"

text \<open>Lines 210-217: the message; \<^verbatim>\<open>options?.label || "Instantiate"\<close>.\<close>

definition label_or_default :: "instantiate_options option \<Rightarrow> string" where
  "label_or_default options =
     (case options of
        None \<Rightarrow> ''Instantiate''
      | Some opts \<Rightarrow>
         (case opt_label opts of
            None \<Rightarrow> ''Instantiate''
          | Some l \<Rightarrow> if l = [] then ''Instantiate'' else l))"

definition instantiate_msg :: "env \<Rightarrow> jsval \<Rightarrow> jsval \<Rightarrow> instantiate_options option \<Rightarrow> msg" where
  "instantiate_msg env codeId init_msg options =
     MsgInstantiateContract (accAddress env)
       (case options of None \<Rightarrow> None | Some opts \<Rightarrow> opt_admin opts)
       (parseInt env codeId)
       init_msg
       (case options of None \<Rightarrow> None | Some opts \<Rightarrow> opt_coins opts)
       (label_or_default options)"

text \<open>
  Lines 200-232: up to the block-inclusion waiter. The result is what the waiter
  returns.
\<close>

definition instantiate_submit ::
  "env \<Rightarrow> world \<Rightarrow> string \<Rightarrow> jsval \<Rightarrow> instantiate_options option \<Rightarrow> spinner option
     \<Rightarrow> (js_error + txinfo option) \<times> world" where
  "instantiate_submit env w contract init_msg options spinner =
     (let codeId = getCodeId (refs w) (network env) contract
      in if falsy codeId
         then (Inl (Error (''Contract '' @ contract @ '' code id not found in refs.'')), w)
         else (case manualSequence env (spin spinner Start w) options of
                 (Inl e, w1) \<Rightarrow> (Inl e, w1)
               | (Inr sequence, w1) \<Rightarrow>
                  (let opts = \<lparr>msgs = [instantiate_msg env codeId init_msg options],
                              tx_sequence = Some sequence, feeDenoms = Some [''uluna'']\<rparr>;
                       w2 = emit (CreateAndSignTx opts) w1
                   in (case createAndSignTx env opts of
                         Inl e \<Rightarrow> (Inl e, w2)
                       | Inr instantiateTx \<Rightarrow>
                          (let w3 = emit (BroadcastSync instantiateTx) w2
                           in (case broadcastSync env instantiateTx of
                                 Inl e \<Rightarrow> (Inl e, w3)
                               | Inr result \<Rightarrow>
                                   (waitForInclusionInBlock env (bc_txhash result),
                                    emit (WaitForInclusion (bc_txhash result)) w3)))))))"

text \<open>Lines 234-244: \<^verbatim>\<open>JSON.parse(res!.raw_log)\<close> and its \<^verbatim>\<open>catch\<close>.\<close>

definition instantiate_parse :: "env \<Rightarrow> txinfo option \<Rightarrow> js_error + jsval" where
  "instantiate_parse env res =
     (case res of
        None \<Rightarrow> Inl (cannot_read JUndefined ''raw_log'')
      | Some r \<Rightarrow> parse env (tx_raw_log r))"

definition instantiate_log ::
  "env \<Rightarrow> world \<Rightarrow> string \<Rightarrow> spinner option \<Rightarrow> txinfo option \<Rightarrow> (js_error + jsval) \<times> world" where
  "instantiate_log env w contract spinner res =
     (case instantiate_parse env res of
        Inr log \<Rightarrow> (Inr log, w)
      | Inl e \<Rightarrow>
         (let w1 = spin spinner Fail w
          in (case (e, res) of
                (SyntaxError m, Some r) \<Rightarrow>
                  (Inl (Error (''Error instantiating '' @ contract @ '':'' @ [CHR 0x0A] @ tx_raw_log r)), w1)
              | _ \<Rightarrow> (Inl (Error (''Unexpcted Error: '' @ error_to_string e)), w1))))"

text \<open>
  Lines 247-253: the event, \<^verbatim>\<open>instantiate_contract\<close> first; \<^verbatim>\<open>??\<close> evaluates
  its right operand only when the left one is \<^verbatim>\<open>undefined\<close> or \<^verbatim>\<open>null\<close>.
\<close>

definition find_event :: "jsval \<Rightarrow> string \<Rightarrow> js_error + jsval" where
  "find_event log t =
     bindE (index0 log) (\<lambda>entry.
     bindE (get_prop entry ''events'') (\<lambda>events.
     js_find events (prop_is ''type'' t)))"

definition instantiate_event :: "jsval \<Rightarrow> js_error + jsval" where
  "instantiate_event log =
     bindE (find_event log ''instantiate_contract'') (\<lambda>event.
     if event = JUndefined \<or> event = JNull then find_event log ''instantiate'' else Inr event)"

text \<open>Lines 255-257.\<close>

definition contractAddress :: "jsval \<Rightarrow> js_error + jsval" where
  "contractAddress event =
     bindE (get_prop event ''attributes'') (\<lambda>attributes.
     bindE (js_find attributes (prop_is ''key'' ''_contract_address'')) (\<lambda>attr.
     get_prop attr ''value''))"

text \<open>Lines 245-266: after the log is parsed.\<close>

definition instantiate_finish ::
  "env \<Rightarrow> world \<Rightarrow> string \<Rightarrow> spinner option \<Rightarrow> txinfo option \<Rightarrow> jsval
     \<Rightarrow> (js_error + jsval \<times> string) \<times> world" where
  "instantiate_finish env w contract spinner res log =
     (let w1 = spin spinner Succeed w
      in (case bindE (instantiate_event log) contractAddress of
            Inl e \<Rightarrow> (Inl e, w1)
          | Inr address \<Rightarrow>
             (let w2 = spin spinner Succeed w1;
                  w3 = emit (SetAddress (network env) contract address)
                         (w2\<lparr>refs := setAddress (refs w2) (network env) contract address\<rparr>);
                  w4 = save env w3
              in (case res of
                    None \<Rightarrow> (Inl (cannot_read JUndefined ''raw_log''), w4)
                  | Some r \<Rightarrow> (Inr (address, tx_raw_log r), w4)))))"

text \<open>\<^verbatim>\<open>instantiate(contract, msg, options?, spinner = ora({ spinner: "dots" }))\<close>\<close>

definition instantiate ::
  "env \<Rightarrow> world \<Rightarrow> string \<Rightarrow> jsval \<Rightarrow> instantiate_options option \<Rightarrow> spinner_arg
     \<Rightarrow> (js_error + jsval \<times> string) \<times> world" where
  "instantiate env w contract init_msg options spinner_arg =
     (let spinner = default_spinner spinner_arg
      in (case instantiate_submit env w contract init_msg options spinner of
            (Inl e, w1) \<Rightarrow> (Inl e, w1)
          | (Inr res, w1) \<Rightarrow>
             (case instantiate_log env w1 contract spinner res of
                (Inl e, w2) \<Rightarrow> (Inl e, w2)
              | (Inr log, w2) \<Rightarrow> instantiate_finish env w2 contract spinner res log)))"

subsection \<open>Reading the claims: the log as the specification describes it\<close>

text \<open>
  The specification speaks of the raw log as a list of entries, each with a list of
  events, each event with a type and a list of attributes, each attribute with a key
  and a value. The following definitions follow these words; the theorems relate them
  to the property reads and searches of the code.
\<close>

text \<open>An object whose property \<open>p\<close> is the string \<open>s\<close>.\<close>

fun has_prop :: "string \<Rightarrow> string \<Rightarrow> jsval \<Rightarrow> bool" where
  "has_prop p s (JObj kvs) = (map_of kvs p = Some (JStr s))"
| "has_prop p s JUndefined = False"
| "has_prop p s JNull = False"
| "has_prop p s (JBool b) = False"
| "has_prop p s (JNum n) = False"
| "has_prop p s (JStr t) = False"
| "has_prop p s (JArr xs) = False"

text \<open>Entry 0 of the log: the first element of a list (or the member \<open>0\<close> of an object).\<close>

fun first_entry :: "jsval \<Rightarrow> jsval option" where
  "first_entry (JArr xs) = (case xs of [] \<Rightarrow> None | x # _ \<Rightarrow> Some x)"
| "first_entry (JObj kvs) = map_of kvs ''0''"
| "first_entry JUndefined = None"
| "first_entry JNull = None"
| "first_entry (JBool b) = None"
| "first_entry (JNum n) = None"
| "first_entry (JStr s) = None"

text \<open>The list held by the member \<open>p\<close> of an object.\<close>

fun member_list :: "string \<Rightarrow> jsval \<Rightarrow> jsval list option" where
  "member_list p (JObj kvs) = (case map_of kvs p of Some (JArr xs) \<Rightarrow> Some xs | _ \<Rightarrow> None)"
| "member_list p JUndefined = None"
| "member_list p JNull = None"
| "member_list p (JBool b) = None"
| "member_list p (JNum n) = None"
| "member_list p (JStr s) = None"
| "member_list p (JArr xs) = None"

text \<open>The events of the first entry of the log.\<close>

definition log_events :: "jsval \<Rightarrow> jsval list option" where
  "log_events log =
     (case first_entry log of None \<Rightarrow> None | Some entry \<Rightarrow> member_list ''events'' entry)"

text \<open>The first event of type \<open>t\<close>.\<close>

definition event_of_type :: "string \<Rightarrow> jsval list \<Rightarrow> jsval option" where
  "event_of_type t events = find (has_prop ''type'' t) events"

text \<open>
  The value of the first attribute with key \<open>k\<close> of an event (\<^verbatim>\<open>undefined\<close> when the
  attribute has no member \<^verbatim>\<open>value\<close>).
\<close>

definition attribute_value :: "string \<Rightarrow> jsval \<Rightarrow> jsval option" where
  "attribute_value k event =
     (case member_list ''attributes'' event of
        None \<Rightarrow> None
      | Some attributes \<Rightarrow>
         (case find (has_prop ''key'' k) attributes of
            Some (JObj kvs) \<Rightarrow> Some (case map_of kvs ''value'' of None \<Rightarrow> JUndefined | Some v \<Rightarrow> v)
          | _ \<Rightarrow> None))"

text \<open>The value of the attribute \<open>k\<close> of the event of type \<open>t\<close> in the first entry.\<close>

definition log_value :: "jsval \<Rightarrow> string \<Rightarrow> string \<Rightarrow> jsval option" where
  "log_value log t k =
     (case log_events log of
        None \<Rightarrow> None
      | Some events \<Rightarrow>
         (case event_of_type t events of
            None \<Rightarrow> None
          | Some event \<Rightarrow> attribute_value k event))"


text \<open>The calls made between two worlds.\<close>

definition new_actions :: "world \<Rightarrow> world \<Rightarrow> action list" where
  "new_actions w w' = drop (length (trace w)) (trace w')"

definition spin_actions :: "spinner option \<Rightarrow> spinner_call \<Rightarrow> action list" where
  "spin_actions sp c = (case sp of None \<Rightarrow> [] | Some s \<Rightarrow> [Spinner s c])"

subsection \<open>A concrete deployment\<close>

text \<open>
  One configuration, ledger and runtime, on which the theorems are instantiated: the
  contract \<open>vault\<close> on \<open>testnet\<close>, as in the end-to-end scenario of the specification.
\<close>

fun join_paths :: "string list \<Rightarrow> string" where
  "join_paths [] = ''.''"
| "join_paths [p] = p"
| "join_paths (p # q # ps) = p @ ''/'' @ join_paths (q # ps)"

text \<open>
  The logs have a \<^verbatim>\<open>message\<close> event before the event looked for, and another
  attribute before the attribute looked for.
\<close>

definition message_event :: jsval where
  "message_event =
     JObj [(''type'', JStr ''message''),
           (''attributes'', JArr [JObj [(''key'', JStr ''sender''), (''value'', JStr ''terra1sender'')]])]"

definition store_code_attributes :: "jsval list" where
  "store_code_attributes =
     [JObj [(''key'', JStr ''sender''), (''value'', JStr ''terra1sender'')],
      JObj [(''key'', JStr ''code_id''), (''value'', JStr ''42'')]]"

definition store_code_event :: jsval where
  "store_code_event =
     JObj [(''type'', JStr ''store_code''), (''attributes'', JArr store_code_attributes)]"

definition store_log_text :: string where
  \<open>store_log_text =
     ''[{"events":[{"type":"message","attributes":[{"key":"sender","value":"terra1sender"}]},{"type":"store_code","attributes":[{"key":"sender","value":"terra1sender"},{"key":"code_id","value":"42"}]}]}]''\<close>

definition store_log :: jsval where
  "store_log = JArr [JObj [(''events'', JArr [message_event, store_code_event])]]"

definition fallback_attributes :: "jsval list" where
  "fallback_attributes =
     [JObj [(''key'', JStr ''code_id''), (''value'', JStr ''42'')],
      JObj [(''key'', JStr ''_contract_address''), (''value'', JStr ''terra1abc'')]]"

definition fallback_event :: jsval where
  "fallback_event =
     JObj [(''type'', JStr ''instantiate''), (''attributes'', JArr fallback_attributes)]"

definition instantiate_log_text :: string where
  \<open>instantiate_log_text =
     ''[{"events":[{"type":"message","attributes":[{"key":"sender","value":"terra1sender"}]},{"type":"instantiate","attributes":[{"key":"code_id","value":"42"},{"key":"_contract_address","value":"terra1abc"}]}]}]''\<close>

definition instantiate_log_value :: jsval where
  "instantiate_log_value = JArr [JObj [(''events'', JArr [message_event, fallback_event])]]"

definition no_events_text :: string where
  \<open>no_events_text = ''[{"events":[]}]''\<close>

definition no_events_log :: jsval where
  "no_events_log = JArr [JObj [(''events'', JArr [])]]"

text \<open>A log with both event types, the fallback type first.\<close>

definition both_events_text :: string where
  \<open>both_events_text =
     ''[{"events":[{"type":"instantiate","attributes":[{"key":"_contract_address","value":"terra1old"}]},{"type":"instantiate_contract","attributes":[{"key":"_contract_address","value":"terra1new"}]}]}]''\<close>

definition old_attributes :: "jsval list" where
  "old_attributes = [JObj [(''key'', JStr ''_contract_address''), (''value'', JStr ''terra1old'')]]"

definition old_event :: jsval where
  "old_event = JObj [(''type'', JStr ''instantiate''), (''attributes'', JArr old_attributes)]"

definition primary_attributes :: "jsval list" where
  "primary_attributes = [JObj [(''key'', JStr ''_contract_address''), (''value'', JStr ''terra1new'')]]"

definition primary_event :: jsval where
  "primary_event =
     JObj [(''type'', JStr ''instantiate_contract''), (''attributes'', JArr primary_attributes)]"

definition both_events_log :: jsval where
  "both_events_log = JArr [JObj [(''events'', JArr [old_event, primary_event])]]"

text \<open>\<^verbatim>\<open>JSON.parse\<close> on the texts that occur.\<close>

definition sample_parse :: "string \<Rightarrow> string + jsval" where
  "sample_parse s =
     (if s = store_log_text then Inr store_log
      else if s = instantiate_log_text then Inr instantiate_log_value
      else if s = no_events_text then Inr no_events_log
      else if s = both_events_text then Inr both_events_log
      else if s = [] then Inl ''Unexpected end of JSON input''
      else Inl ''Unexpected token'')"

definition sample_sign :: "tx_options \<Rightarrow> js_error + tx" where
  "sample_sign opts =
     (case msgs opts of
        [MsgInstantiateContract sender admin code_id init_msg funds label] \<Rightarrow> Inr ''tx-instantiate''
      | _ \<Rightarrow> Inr ''tx-store'')"

definition sample_wait :: "string \<Rightarrow> js_error + txinfo option" where
  "sample_wait h =
     (if h = ''A1'' then Inr (Some \<lparr>tx_raw_log = store_log_text\<rparr>)
      else if h = ''B2'' then Inr (Some \<lparr>tx_raw_log = instantiate_log_text\<rparr>)
      else Inr None)"

definition sample_env :: env where
  "sample_env =
     \<lparr>network = ''testnet'',
      contracts = [''vault'' \<mapsto> \<lparr>src = ''contracts/vault''\<rparr>],
      base_path = ''refs.json'',
      copy_refs_to = [''app/refs.json''],
      accAddress = ''terra1sender'',
      arm64 = False,
      path_join = join_paths,
      chdir = (\<lambda>p. None),
      existsSync = (\<lambda>p. p = ''/work/contracts/vault/artifacts/vault.wasm''),
      readFileBase64 = (\<lambda>p. if p = ''/work/contracts/vault/artifacts/vault.wasm''
                             then Inr ''AGFzbQ=='' else Inl (Error ''ENOENT'')),
      createAndSignTx = sample_sign,
      broadcastSync = (\<lambda>t. Inr \<lparr>bc_txhash = (if t = ''tx-store'' then ''A1'' else ''B2''),
                                 bc_raw_log = ''[]'', bc_code = None\<rparr>),
      waitForInclusionInBlock = sample_wait,
      signer_sequence = Inr (Num 7),
      JSON_parse = sample_parse,
      parseInt = (\<lambda>v. if v = JStr ''42'' then Some 42 else None)\<rparr>"

text \<open>The ledger rejects the submission: the broadcast result carries code 5.\<close>

definition rejecting_env :: env where
  "rejecting_env =
     sample_env\<lparr>broadcastSync :=
       (\<lambda>t. Inr \<lparr>bc_txhash = ''C3'', bc_raw_log = ''out of gas'', bc_code = Some 5\<rparr>)\<rparr>"

text \<open>The included transaction has a well-formed log without events.\<close>

definition no_events_env :: env where
  "no_events_env =
     sample_env\<lparr>waitForInclusionInBlock := (\<lambda>h. Inr (Some \<lparr>tx_raw_log = no_events_text\<rparr>))\<rparr>"


text \<open>The included transaction has a log that is not JSON.\<close>

definition malformed_env :: env where
  "malformed_env =
     sample_env\<lparr>waitForInclusionInBlock := (\<lambda>h. Inr (Some \<lparr>tx_raw_log = ''out of gas''\<rparr>))\<rparr>"

definition empty_refs :: refs_store where
  "empty_refs = \<lparr>codeIds = Map.empty, addresses = Map.empty\<rparr>"

definition world0 :: world where
  "world0 = \<lparr>refs = empty_refs, disk = Map.empty, cwd = ''/work'', trace = []\<rparr>"

text \<open>After \<open>vault\<close> has been uploaded with code id 42.\<close>

definition world1 :: world where
  "world1 = world0\<lparr>refs := setCodeId empty_refs ''testnet'' ''vault'' (JStr ''42'')\<rparr>"

section \<open>Properties\<close>

subsection \<open>Reading values out of a log\<close>

lemma bindE_Inr_iff: "bindE r f = Inr y \<longleftrightarrow> (\<exists>x. r = Inr x \<and> f x = Inr y)"
  by (cases r) (simp_all add: bindE_def)

lemma bindE_Inl_iff: "bindE r f = Inl e \<longleftrightarrow> r = Inl e \<or> (\<exists>x. r = Inr x \<and> f x = Inl e)"
  by (cases r) (simp_all add: bindE_def)

lemma type_error_cannot_read: "type_error (cannot_read v p)"
  by (simp add: cannot_read_def)

lemma get_prop_Inl: "get_prop x p = Inl e \<Longrightarrow> type_error e"
  by (cases x) (auto simp: type_error_cannot_read)

lemma index0_Inl: "index0 x = Inl e \<Longrightarrow> type_error e"
  by (cases x) (auto simp: type_error_cannot_read)

lemma prop_is_Inr: "prop_is p s x = Inr b \<Longrightarrow> b = has_prop p s x"
  by (cases x) (auto simp: prop_is_def bindE_def split: option.splits)

lemma prop_is_Inl: "prop_is p s x = Inl e \<Longrightarrow> type_error e"
  by (auto simp: prop_is_def bindE_Inl_iff dest: get_prop_Inl)

lemma find_loop_Inr:
  "find_loop (prop_is p s) xs = Inr v \<Longrightarrow>
     (case find (has_prop p s) xs of None \<Rightarrow> v = JUndefined | Some x \<Rightarrow> v = x)"
proof (induction xs)
  case Nil
  then show ?case by simp
next
  case (Cons x xs)
  then show ?case
    by (auto split: sum.splits if_splits dest: prop_is_Inr)
qed

lemma find_loop_Inl: "find_loop (prop_is p s) xs = Inl e \<Longrightarrow> type_error e"
  by (induction xs) (auto split: sum.splits if_splits dest: prop_is_Inl)

lemma js_find_Inl: "js_find x (prop_is p s) = Inl e \<Longrightarrow> type_error e"
  by (cases x) (auto simp: type_error_cannot_read dest: find_loop_Inl)

lemma js_find_Inr:
  "js_find x (prop_is p s) = Inr v \<Longrightarrow>
     \<exists>xs. x = JArr xs \<and> (case find (has_prop p s) xs of None \<Rightarrow> v = JUndefined | Some y \<Rightarrow> v = y)"
  by (cases x) (auto dest: find_loop_Inr)

lemma has_prop_obj: "has_prop p s x \<Longrightarrow> \<exists>kvs. x = JObj kvs"
  by (cases x) auto

lemma find_has_prop_obj: "find (has_prop p s) xs = Some x \<Longrightarrow> \<exists>kvs. x = JObj kvs"
  by (auto simp: find_Some_iff dest: has_prop_obj)

lemma get_prop_events_arr:
  "index0 log = Inr entry \<Longrightarrow> get_prop entry ''events'' = Inr (JArr xs) \<Longrightarrow> log_events log = Some xs"
  apply (cases log; cases entry)
  apply (auto simp: log_events_def split: list.splits option.splits jsval.splits)
  done

lemma find_event_Inr:
  "find_event log t = Inr ev \<Longrightarrow>
     \<exists>evs. log_events log = Some evs \<and>
       (case event_of_type t evs of None \<Rightarrow> ev = JUndefined | Some e \<Rightarrow> ev = e)"
  by (auto simp: find_event_def bindE_Inr_iff event_of_type_def
      dest!: js_find_Inr dest: get_prop_events_arr)

lemma find_event_Inl: "find_event log t = Inl e \<Longrightarrow> type_error e"
  by (auto simp: find_event_def bindE_Inl_iff dest: index0_Inl get_prop_Inl js_find_Inl)

lemma get_prop_attributes_arr:
  "get_prop ev ''attributes'' = Inr (JArr xs) \<Longrightarrow> member_list ''attributes'' ev = Some xs"
  by (cases ev) (auto split: option.splits jsval.splits)

lemma contractAddress_gen_Inr:
  "bindE (get_prop event ''attributes'') (\<lambda>attributes.
     bindE (js_find attributes (prop_is ''key'' k)) (\<lambda>attr. get_prop attr ''value'')) = Inr v
   \<Longrightarrow> attribute_value k event = Some v"
  apply (clarsimp simp: bindE_Inr_iff attribute_value_def dest!: js_find_Inr)
  apply (frule get_prop_attributes_arr)
  apply (auto split: option.splits jsval.splits dest: find_has_prop_obj)
  done

lemma contractAddress_gen_Inl:
  "bindE (get_prop event ''attributes'') (\<lambda>attributes.
     bindE (js_find attributes (prop_is ''key'' k)) (\<lambda>attr. get_prop attr ''value'')) = Inl e
   \<Longrightarrow> type_error e"
  by (auto simp: bindE_Inl_iff dest: get_prop_Inl js_find_Inl)


lemma savedCodeId_alt:
  "savedCodeId env res =
     bindE (parse env (raw_log_or_empty res)) (\<lambda>log.
     bindE (find_event log ''store_code'') (\<lambda>event.
     bindE (get_prop event ''attributes'') (\<lambda>attributes.
     bindE (js_find attributes (prop_is ''key'' ''code_id'')) (\<lambda>attr.
     get_prop attr ''value''))))"
  by (simp add: savedCodeId_def find_event_def bindE_def split: sum.splits)

lemma parse_Inr: "parse env s = Inr v \<longleftrightarrow> JSON_parse env s = Inr v"
  by (simp add: parse_def split: sum.splits)

lemma parse_Inl: "parse env s = Inl e \<longleftrightarrow> (\<exists>m. JSON_parse env s = Inl m \<and> e = SyntaxError m)"
  by (auto simp: parse_def split: sum.splits)

lemma log_value_found:
  assumes "find_event log t = Inr ev"
    and "bindE (get_prop ev ''attributes'') (\<lambda>attributes.
           bindE (js_find attributes (prop_is ''key'' k)) (\<lambda>attr. get_prop attr ''value'')) = Inr v"
  shows "log_value log t k = Some v"
proof -
  from assms(1) obtain evs where evs: "log_events log = Some evs"
    and ev: "case event_of_type t evs of None \<Rightarrow> ev = JUndefined | Some e \<Rightarrow> ev = e"
    by (auto dest: find_event_Inr)
  have "ev \<noteq> JUndefined" using assms(2) by (auto simp: bindE_def)
  with ev have "event_of_type t evs = Some ev" by (auto split: option.splits)
  moreover have "attribute_value k ev = Some v" using assms(2) by (rule contractAddress_gen_Inr)
  ultimately show ?thesis using evs by (simp add: log_value_def)
qed

lemma savedCodeId_Inr:
  "savedCodeId env res = Inr v \<Longrightarrow>
     \<exists>log. JSON_parse env (raw_log_or_empty res) = Inr log \<and>
           log_value log ''store_code'' ''code_id'' = Some v"
  unfolding savedCodeId_alt
  by (auto simp: bindE_Inr_iff[where r="parse env s" for s] bindE_Inr_iff[where r="find_event l t" for l t] parse_Inr intro: log_value_found)

lemma savedCodeId_Inl:
  "savedCodeId env res = Inl e \<Longrightarrow>
     (\<exists>m. JSON_parse env (raw_log_or_empty res) = Inl m \<and> e = SyntaxError m) \<or>
     ((\<exists>log. JSON_parse env (raw_log_or_empty res) = Inr log) \<and> type_error e)"
  unfolding savedCodeId_alt
  by (auto simp: bindE_Inl_iff[where r="parse env s" for s] bindE_Inl_iff[where r="find_event l t" for l t] parse_Inr parse_Inl
      dest: find_event_Inl contractAddress_gen_Inl)


lemma emit_simps:
  "trace (emit a w) = trace w @ [a]" "refs (emit a w) = refs w"
  "disk (emit a w) = disk w" "cwd (emit a w) = cwd w"
  by (simp_all add: emit_def)

lemma spin_simps:
  "trace (spin sp c w) = trace w @ spin_actions sp c" "refs (spin sp c w) = refs w"
  "disk (spin sp c w) = disk w" "cwd (spin sp c w) = cwd w"
  by (simp_all add: spin_def spin_actions_def emit_def split: option.splits)

lemma save_simps:
  "trace (save env w) = trace w @ [SaveRefs (base_path env) (copy_refs_to env)]"
  "refs (save env w) = refs w"
  "disk (save env w) = saveRefs (refs w) (base_path env) (copy_refs_to env) (disk w)"
  "cwd (save env w) = cwd w"
  by (simp_all add: save_def emit_def)

lemma new_actions_eq: "trace w' = trace w @ acts \<Longrightarrow> new_actions w w' = acts"
  by (simp add: new_actions_def)

lemma storeCode_submit_Inr:
  assumes "storeCode_submit env w c mig sp = (Inr (cwd0, result), w1)"
  shows "\<exists>bi code tx.
           contracts env c = Some bi \<and>
           readFileBase64 env (path_join env [path_join env [cwd w, src bi], ''artifacts'',
               wasmByteCodeFilename (arm64 env) c]) = Inr code \<and>
           createAndSignTx env \<lparr>msgs = [store_msg (accAddress env) mig code],
               tx_sequence = None, feeDenoms = None\<rparr> = Inr tx \<and>
           broadcastSync env tx = Inr result \<and> bc_code result = None \<and> cwd0 = cwd w \<and>
           refs w1 = refs w \<and> disk w1 = disk w \<and>
           trace w1 = trace w @ Chdir (path_join env [cwd w, src bi]) # spin_actions sp Start
             @ [CreateAndSignTx \<lparr>msgs = [store_msg (accAddress env) mig code],
                  tx_sequence = None, feeDenoms = None\<rparr>, BroadcastSync tx]"
  using assms unfolding storeCode_submit_def
  by (auto simp: Let_def emit_simps spin_simps split: option.splits sum.splits if_splits)

lemma storeCode_submit_Inl:
  assumes "storeCode_submit env w c mig sp = (Inl e, w1)"
  shows "refs w1 = refs w \<and> disk w1 = disk w \<and>
         (\<exists>acts. trace w1 = trace w @ acts \<and>
            (\<forall>h. WaitForInclusion h \<notin> set acts) \<and>
            (\<forall>tx result. BroadcastSync tx \<in> set acts \<and> broadcastSync env tx = Inr result \<longrightarrow>
               bc_code result \<noteq> None \<and>
               e = Error (''Error storing wasm file for '' @ c @ '':'' @ [CHR 0x0A] @ bc_raw_log result)))"
  using assms unfolding storeCode_submit_def
  by (auto simp: Let_def emit_simps spin_simps spin_actions_def split: option.splits sum.splits if_splits)

lemma storeCode_finish_Inr:
  assumes "storeCode_finish env w c cwd0 sp res = (Inr v, w')"
  shows "\<exists>s. sp = Some s \<and> savedCodeId env res = Inr v \<and>
           trace w' = trace w @ [Chdir cwd0, Spinner s Succeed, SetCodeId (network env) c v,
             SaveRefs (base_path env) (copy_refs_to env)] \<and>
           refs w' = setCodeId (refs w) (network env) c v \<and>
           disk w' = saveRefs (refs w') (base_path env) (copy_refs_to env) (disk w)"
  using assms unfolding storeCode_finish_def storeCode_try_def storeCode_catch_def spin_unguarded_def
  by (auto simp: Let_def emit_simps save_simps split: option.splits sum.splits if_splits js_error.splits)

lemma storeCode_finish_Inl:
  assumes "storeCode_finish env w c cwd0 sp res = (Inl e, w')"
  shows "refs w' = refs w \<and> disk w' = disk w \<and>
         (\<exists>acts. trace w' = trace w @ acts \<and>
            (\<forall>a \<in> set acts. a = Chdir cwd0 \<or> (\<exists>s k. a = Spinner s k)))"
  using assms unfolding storeCode_finish_def storeCode_try_def storeCode_catch_def spin_unguarded_def
  by (auto simp: Let_def emit_simps save_simps split: option.splits sum.splits if_splits js_error.splits)











subsection \<open>The phases of a call, by the calls made\<close>

lemma manualSequence_world:
  assumes "manualSequence env w options = (r, w1)"
  shows "refs w1 = refs w \<and> disk w1 = disk w \<and>
         (trace w1 = trace w \<or> trace w1 = trace w @ [QuerySequence])"
  using assms unfolding manualSequence_def
  by (auto simp: emit_simps split: option.splits if_splits)

lemma instantiate_submit_world:
  assumes "instantiate_submit env w c m options sp = (r, w1)"
  shows "refs w1 = refs w \<and> disk w1 = disk w \<and>
         (\<exists>acts. trace w1 = trace w @ acts \<and>
            (\<forall>h. WaitForInclusion h \<in> set acts \<longrightarrow> r = waitForInclusionInBlock env h) \<and>
            (\<forall>tx result. BroadcastSync tx \<in> set acts \<and> broadcastSync env tx = Inr result \<longrightarrow>
               WaitForInclusion (bc_txhash result) \<in> set acts))"
proof (cases "falsy (getCodeId (refs w) (network env) c)")
  case True
  with assms show ?thesis by (simp add: instantiate_submit_def)
next
  case False
  obtain rs ws where ms: "manualSequence env (spin sp Start w) options = (rs, ws)"
    by (cases "manualSequence env (spin sp Start w) options")
  from manualSequence_world[OF ms] obtain acts0 where
    ws: "refs ws = refs w" "disk ws = disk w" "trace ws = trace w @ acts0"
      "\<forall>a \<in> set acts0. (\<exists>s k. a = Spinner s k) \<or> a = QuerySequence"
    by (auto simp: spin_simps spin_actions_def split: option.splits)
  show ?thesis
    using assms False ms ws unfolding instantiate_submit_def
    by (auto simp: Let_def emit_simps split: sum.splits)
qed


lemma instantiate_log_world:
  assumes "instantiate_log env w c sp res = (r, w1)"
  shows "refs w1 = refs w \<and> disk w1 = disk w \<and>
         (\<exists>acts. trace w1 = trace w @ acts \<and> (\<forall>a \<in> set acts. \<exists>s k. a = Spinner s k))"
  using assms unfolding instantiate_log_def
  by (auto simp: Let_def spin_simps spin_actions_def split: sum.splits option.splits js_error.splits)


lemma instantiate_log_malformed:
  assumes "JSON_parse env (tx_raw_log r) = Inl m"
  shows "fst (instantiate_log env w c sp (Some r)) =
           Inl (Error (''Error instantiating '' @ c @ '':'' @ [CHR 0x0A] @ tx_raw_log r))"
  using assms unfolding instantiate_log_def instantiate_parse_def
  by (simp add: Let_def parse_def)


lemma instantiate_finish_world:
  assumes "instantiate_finish env w c sp res log = (r, w')"
  shows "\<exists>acts. trace w' = trace w @ acts \<and>
           (\<forall>a \<in> set acts. (\<exists>s k. a = Spinner s k) \<or> (\<exists>n c v. a = SetAddress n c v)
              \<or> (\<exists>b cs. a = SaveRefs b cs))"
  using assms unfolding instantiate_finish_def
  by (auto simp: Let_def emit_simps spin_simps save_simps spin_actions_def split: sum.splits option.splits)


lemma instantiate_submit_code_irrelevant:
  "instantiate_submit (env\<lparr>broadcastSync := \<lambda>t. map_sum id (\<lambda>r. r\<lparr>bc_code := k\<rparr>) (broadcastSync env t)\<rparr>)
     w c m options sp = instantiate_submit env w c m options sp"
  unfolding instantiate_submit_def manualSequence_def instantiate_msg_def
  by (auto simp: Let_def split: sum.splits option.splits prod.splits)

lemma storeCode_finish_world:
  assumes "storeCode_finish env w c cwd0 sp res = (r, w')"
  shows "\<exists>acts. trace w' = trace w @ acts \<and>
           (\<forall>a \<in> set acts. a = Chdir cwd0 \<or> (\<exists>s k. a = Spinner s k)
              \<or> (\<exists>n c v. a = SetCodeId n c v) \<or> (\<exists>b cs. a = SaveRefs b cs))"
proof (cases r)
  case (Inl e)
  from storeCode_finish_Inl[OF assms[unfolded Inl]] obtain acts where
    a: "trace w' = trace w @ acts" "\<forall>a \<in> set acts. a = Chdir cwd0 \<or> (\<exists>s k. a = Spinner s k)"
    by (elim conjE exE)
  have "\<forall>a \<in> set acts. a = Chdir cwd0 \<or> (\<exists>s k. a = Spinner s k)
              \<or> (\<exists>n c v. a = SetCodeId n c v) \<or> (\<exists>b cs. a = SaveRefs b cs)"
    using a(2) by fast
  with a(1) show ?thesis by (intro exI[of _ acts] conjI)
next
  case (Inr v)
  from storeCode_finish_Inr[OF assms[unfolded Inr]] obtain s where
    t: "trace w' = trace w @ [Chdir cwd0, Spinner s Succeed, SetCodeId (network env) c v,
             SaveRefs (base_path env) (copy_refs_to env)]"
    by blast
  show ?thesis
    by (rule exI[of _ "[Chdir cwd0, Spinner s Succeed, SetCodeId (network env) c v,
             SaveRefs (base_path env) (copy_refs_to env)]"]) (simp add: t)
qed

lemma storeCode_submit_signed:
  assumes "storeCode_submit env w c mig sp = (r, w1)"
  shows "trace w1 = trace w @ new_actions w w1 \<and>
           (\<forall>h. WaitForInclusion h \<notin> set (new_actions w w1)) \<and>
           (\<forall>opts. CreateAndSignTx opts \<in> set (new_actions w w1) \<longrightarrow>
              (\<exists>bi code. contracts env c = Some bi \<and>
                 readFileBase64 env (path_join env [path_join env [cwd w, src bi], ''artifacts'',
                     wasmByteCodeFilename (arm64 env) c]) = Inr code \<and>
                 opts = \<lparr>msgs = [store_msg (accAddress env) mig code],
                          tx_sequence = None, feeDenoms = None\<rparr>))"
  using assms unfolding storeCode_submit_def new_actions_def
  by (auto simp: Let_def emit_simps spin_simps spin_actions_def split: option.splits sum.splits if_splits)

text \<open>What follows the submission in \<open>storeCode\<close>.\<close>

lemma storeCode_phases:
  assumes "storeCode env w c mig sarg = (out, w')"
  shows "\<exists>r1 w1. storeCode_submit env w c mig (default_spinner sarg) = (r1, w1) \<and>
          (case r1 of
             Inl e \<Rightarrow> out = Inl e \<and> w' = w1
           | Inr (cwd0, result) \<Rightarrow>
              (case waitForInclusionInBlock env (bc_txhash result) of
                 Inl e \<Rightarrow> out = Inl e \<and> refs w' = refs w1 \<and> disk w' = disk w1 \<and>
                           trace w' = trace w1 @ [WaitForInclusion (bc_txhash result)]
               | Inr res \<Rightarrow>
                   (\<exists>w2 acts. refs w2 = refs w1 \<and> disk w2 = disk w1 \<and>
                      storeCode_finish env w2 c cwd0 (default_spinner sarg) res = (out, w') \<and>
                      trace w' = trace w1 @ WaitForInclusion (bc_txhash result) # acts \<and>
                      (\<forall>a \<in> set acts. a = Chdir cwd0 \<or> (\<exists>s k. a = Spinner s k)
                         \<or> (\<exists>n c v. a = SetCodeId n c v) \<or> (\<exists>b cs. a = SaveRefs b cs)))))"
proof -
  let ?sp = "default_spinner sarg"
  obtain r1 w1 where submit: "storeCode_submit env w c mig ?sp = (r1, w1)"
    by (cases "storeCode_submit env w c mig ?sp")
  show ?thesis
  proof (cases r1)
    case (Inl e)
    with assms submit show ?thesis by (simp add: storeCode_def)
  next
    case (Inr p)
    obtain cwd0 result where p: "p = (cwd0, result)" by (cases p)
    show ?thesis
    proof (cases "waitForInclusionInBlock env (bc_txhash result)")
      case (Inl e)
      with assms submit Inr p show ?thesis
        by (auto simp: storeCode_def Let_def emit_simps)
    next
      case (Inr res)
      let ?w2 = "spin ?sp Succeed (emit (WaitForInclusion (bc_txhash result)) w1)"
      from assms submit \<open>r1 = Inr p\<close> p Inr
      have fin: "storeCode_finish env ?w2 c cwd0 ?sp res = (out, w')"
        by (simp add: storeCode_def Let_def)
      from storeCode_finish_world[OF fin] obtain acts where
        acts: "trace w' = trace ?w2 @ acts"
          "\<forall>a \<in> set acts. a = Chdir cwd0 \<or> (\<exists>s k. a = Spinner s k)
              \<or> (\<exists>n c v. a = SetCodeId n c v) \<or> (\<exists>b cs. a = SaveRefs b cs)"
        by blast
      have "trace w' = trace w1 @ WaitForInclusion (bc_txhash result) # (spin_actions ?sp Succeed @ acts)"
        using acts(1) by (simp add: spin_simps emit_simps)
      moreover have "\<forall>a \<in> set (spin_actions ?sp Succeed @ acts). a = Chdir cwd0 \<or> (\<exists>s k. a = Spinner s k)
              \<or> (\<exists>n c v. a = SetCodeId n c v) \<or> (\<exists>b cs. a = SaveRefs b cs)"
        using acts(2) by (auto simp: spin_actions_def split: option.splits)
      moreover have "refs ?w2 = refs w1" "disk ?w2 = disk w1"
        by (simp_all add: spin_simps emit_simps)
      ultimately show ?thesis
        using submit \<open>r1 = Inr p\<close> p Inr fin by (simp del: set_append) blast
    qed
  qed
qed

lemma storeCode_after_inclusion:
  assumes "storeCode env w c mig sarg = (out, w')"
    and "WaitForInclusion h \<in> set (new_actions w w')"
    and "waitForInclusionInBlock env h = Inr res"
  shows "\<exists>w2. refs w2 = refs w \<and> disk w2 = disk w \<and>
           storeCode_finish env w2 c (cwd w) (default_spinner sarg) res = (out, w')"
proof -
  from storeCode_phases[OF assms(1)] obtain r1 w1 where
    submit: "storeCode_submit env w c mig (default_spinner sarg) = (r1, w1)"
    and rest: "case r1 of
             Inl e \<Rightarrow> out = Inl e \<and> w' = w1
           | Inr (cwd0, result) \<Rightarrow>
              (case waitForInclusionInBlock env (bc_txhash result) of
                 Inl e \<Rightarrow> out = Inl e \<and> refs w' = refs w1 \<and> disk w' = disk w1 \<and>
                           trace w' = trace w1 @ [WaitForInclusion (bc_txhash result)]
               | Inr res \<Rightarrow>
                   (\<exists>w2 acts. refs w2 = refs w1 \<and> disk w2 = disk w1 \<and>
                      storeCode_finish env w2 c cwd0 (default_spinner sarg) res = (out, w') \<and>
                      trace w' = trace w1 @ WaitForInclusion (bc_txhash result) # acts \<and>
                      (\<forall>a \<in> set acts. a = Chdir cwd0 \<or> (\<exists>s k. a = Spinner s k)
                         \<or> (\<exists>n c v. a = SetCodeId n c v) \<or> (\<exists>b cs. a = SaveRefs b cs))))"
    by blast
  from storeCode_submit_signed[OF submit] obtain acts1 where
    w1: "trace w1 = trace w @ acts1" "\<forall>h. WaitForInclusion h \<notin> set acts1"
    by blast
  show ?thesis
  proof (cases r1)
    case (Inl e)
    with rest w1 assms(2) show ?thesis by (simp add: new_actions_eq)
  next
    case (Inr p)
    obtain cwd0 result where p: "p = (cwd0, result)" by (cases p)
    have same: "refs w1 = refs w" "disk w1 = disk w" "cwd0 = cwd w"
      using storeCode_submit_Inr[OF submit[unfolded Inr p]] by auto
    show ?thesis
    proof (cases "waitForInclusionInBlock env (bc_txhash result)")
      case (Inl e)
      with rest Inr p have "trace w' = trace w @ acts1 @ [WaitForInclusion (bc_txhash result)]"
        using w1 by simp
      then have "new_actions w w' = acts1 @ [WaitForInclusion (bc_txhash result)]"
        by (rule new_actions_eq)
      with assms(2) w1(2) have "h = bc_txhash result" by auto
      with Inl assms(3) show ?thesis by simp
    next
      case (Inr res')
      with rest \<open>r1 = Inr p\<close> p obtain w2 acts where
        fin: "refs w2 = refs w1" "disk w2 = disk w1"
          "storeCode_finish env w2 c cwd0 (default_spinner sarg) res' = (out, w')"
          "trace w' = trace w1 @ WaitForInclusion (bc_txhash result) # acts"
          "\<forall>a \<in> set acts. a = Chdir cwd0 \<or> (\<exists>s k. a = Spinner s k)
                         \<or> (\<exists>n c v. a = SetCodeId n c v) \<or> (\<exists>b cs. a = SaveRefs b cs)"
        by auto
      have "trace w' = trace w @ (acts1 @ WaitForInclusion (bc_txhash result) # acts)"
        using fin(4) w1(1) by simp
      then have "new_actions w w' = acts1 @ WaitForInclusion (bc_txhash result) # acts"
        by (rule new_actions_eq)
      with assms(2) w1(2) fin(5) have "h = bc_txhash result" by auto
      with Inr assms(3) have "res' = res" by simp
      with fin same show ?thesis by auto
    qed
  qed
qed

lemma savedCodeId_malformed:
  "JSON_parse env (raw_log_or_empty res) = Inl m \<Longrightarrow> savedCodeId env res = Inl (SyntaxError m)"
  by (simp add: savedCodeId_def parse_def bindE_def)

lemma storeCode_finish_caught:
  assumes "savedCodeId env res = Inl e"
  shows "fst (storeCode_finish env w c cwd0 (Some s) res) =
           (case e of
              SyntaxError m \<Rightarrow> Inl (Error (''Error parsing raw_log from store_code transaction: '' @ m))
            | _ \<Rightarrow> Inl (Error (''Unexpcted Error: '' @ error_to_string e)))"
  using assms
  by (simp add: storeCode_finish_def storeCode_try_def storeCode_catch_def spin_unguarded_def
      split: js_error.splits)

lemma storeCode_finish_no_spinner:
  assumes "storeCode_finish env w c cwd0 None res = (out, w')"
  shows "out = Inl (cannot_read JNull ''fail'') \<and> refs w' = refs w \<and> disk w' = disk w"
  using assms
  unfolding storeCode_finish_def storeCode_try_def storeCode_catch_def spin_unguarded_def
  by (auto simp: Let_def emit_simps split: sum.splits option.splits)


lemma instantiate_after_inclusion:
  assumes "instantiate env w c m options sarg = (out, w')"
    and "WaitForInclusion h \<in> set (new_actions w w')"
  shows "\<exists>w1. refs w1 = refs w \<and> disk w1 = disk w \<and>
           instantiate_submit env w c m options (default_spinner sarg)
             = (waitForInclusionInBlock env h, w1) \<and>
           (case waitForInclusionInBlock env h of
              Inl e \<Rightarrow> out = Inl e
            | Inr res \<Rightarrow>
               (case instantiate_log env w1 c (default_spinner sarg) res of
                  (Inl e, w2) \<Rightarrow> out = Inl e \<and> refs w' = refs w \<and> disk w' = disk w
                | (Inr log, w2) \<Rightarrow>
                    instantiate_finish env w2 c (default_spinner sarg) res log = (out, w')))"
proof -
  let ?sp = "default_spinner sarg"
  obtain r1 w1 where submit: "instantiate_submit env w c m options ?sp = (r1, w1)"
    by (cases "instantiate_submit env w c m options ?sp")
  from instantiate_submit_world[OF submit] obtain acts1 where
    w1: "refs w1 = refs w" "disk w1 = disk w" "trace w1 = trace w @ acts1"
    and waited: "\<forall>h. WaitForInclusion h \<in> set acts1 \<longrightarrow> r1 = waitForInclusionInBlock env h"
    by (elim conjE exE)
  have rest: "\<exists>acts2. trace w' = trace w1 @ acts2 \<and> (\<forall>h. WaitForInclusion h \<notin> set acts2) \<and>
    (case r1 of
       Inl e \<Rightarrow> out = Inl e
     | Inr res \<Rightarrow>
        (case instantiate_log env w1 c ?sp res of
           (Inl e, w2) \<Rightarrow> out = Inl e \<and> refs w' = refs w \<and> disk w' = disk w
         | (Inr log, w2) \<Rightarrow> instantiate_finish env w2 c ?sp res log = (out, w')))"
  proof (cases r1)
    case (Inl e)
    with assms(1) submit show ?thesis by (simp add: instantiate_def)
  next
    case (Inr res)
    obtain r2 w2 where parsed: "instantiate_log env w1 c ?sp res = (r2, w2)"
      by (cases "instantiate_log env w1 c ?sp res")
    from instantiate_log_world[OF parsed] obtain actsl where
      w2: "refs w2 = refs w1" "disk w2 = disk w1" "trace w2 = trace w1 @ actsl"
        "\<forall>a \<in> set actsl. \<exists>s k. a = Spinner s k"
      by (elim conjE exE)
    show ?thesis
    proof (cases r2)
      case (Inl e)
      with assms(1) submit \<open>r1 = Inr res\<close> parsed have "out = Inl e" "w' = w2"
        by (simp_all add: instantiate_def)
      moreover have "\<forall>h. WaitForInclusion h \<notin> set actsl" using w2(4) by auto
      ultimately show ?thesis
        using w2 w1 \<open>r1 = Inr res\<close> parsed Inl by (intro exI[of _ actsl]) simp
    next
      case (Inr log)
      with assms(1) submit \<open>r1 = Inr res\<close> parsed
      have fin: "instantiate_finish env w2 c ?sp res log = (out, w')"
        by (simp add: instantiate_def)
      from instantiate_finish_world[OF fin] obtain actsf where
        f: "trace w' = trace w2 @ actsf"
          "\<forall>a \<in> set actsf. (\<exists>s k. a = Spinner s k) \<or> (\<exists>n c v. a = SetAddress n c v)
              \<or> (\<exists>b cs. a = SaveRefs b cs)"
        by (elim conjE exE)
      have "\<forall>h. WaitForInclusion h \<notin> set (actsl @ actsf)"
        using w2(4) f(2) by auto
      moreover have "trace w' = trace w1 @ (actsl @ actsf)"
        using w2(3) f(1) by simp
      ultimately show ?thesis
        using \<open>r1 = Inr res\<close> parsed Inr fin by (intro exI[of _ "actsl @ actsf"]) simp
    qed
  qed
  then obtain acts2 where acts2: "trace w' = trace w1 @ acts2" "\<forall>h. WaitForInclusion h \<notin> set acts2"
    and out: "case r1 of
       Inl e \<Rightarrow> out = Inl e
     | Inr res \<Rightarrow>
        (case instantiate_log env w1 c ?sp res of
           (Inl e, w2) \<Rightarrow> out = Inl e \<and> refs w' = refs w \<and> disk w' = disk w
         | (Inr log, w2) \<Rightarrow> instantiate_finish env w2 c ?sp res log = (out, w'))"
    by (elim conjE exE)
  have "new_actions w w' = acts1 @ acts2"
    using acts2(1) w1(3) by (simp add: new_actions_eq)
  with assms(2) acts2(2) have "WaitForInclusion h \<in> set acts1" by auto
  with waited have "r1 = waitForInclusionInBlock env h" by blast
  with submit w1 out show ?thesis by (intro exI[of _ w1]) simp
qed

lemma instantiate_malformed:
  assumes run: "instantiate env w c m options sarg = (out, w')"
    and waited: "WaitForInclusion h \<in> set (new_actions w w')"
    and res: "waitForInclusionInBlock env h = Inr (Some r)"
    and bad: "JSON_parse env (tx_raw_log r) = Inl msg"
  shows "out = Inl (Error (''Error instantiating '' @ c @ '':'' @ [CHR 0x0A] @ tx_raw_log r))"
proof -
  from instantiate_after_inclusion[OF run waited] obtain w1 where
    "case waitForInclusionInBlock env h of
       Inl e \<Rightarrow> out = Inl e
     | Inr res \<Rightarrow>
        (case instantiate_log env w1 c (default_spinner sarg) res of
           (Inl e, w2) \<Rightarrow> out = Inl e \<and> refs w' = refs w \<and> disk w' = disk w
         | (Inr log, w2) \<Rightarrow>
             instantiate_finish env w2 c (default_spinner sarg) res log = (out, w'))"
    by (elim exE conjE)
  then have
    "case instantiate_log env w1 c (default_spinner sarg) (Some r) of
        (Inl e, w2) \<Rightarrow> out = Inl e \<and> refs w' = refs w \<and> disk w' = disk w
      | (Inr log, w2) \<Rightarrow>
          instantiate_finish env w2 c (default_spinner sarg) (Some r) log = (out, w')"
    by (simp add: res)
  with instantiate_log_malformed[OF bad, of w1 c "default_spinner sarg"]
  show ?thesis
    by (auto split: prod.splits sum.splits)
qed





subsection \<open>storeCode: the code id returned and recorded\<close>



subsection \<open>instantiate: no code id recorded\<close>

text \<open>
  Claim C2. When the reference store has no code id for (network, contract),
  \<open>instantiate\<close> fails with the error \<^verbatim>\<open>Contract ... code id not found in refs.\<close>
  and leaves the world as it was: no call is made to the signer, the ledger client or
  the waiter, and the reference store is unchanged.
\<close>

theorem instantiate_without_code_id:
  assumes "codeIds (refs w) (network env, contract) = None"
  shows "instantiate env w contract init_msg options spinner_arg =
           (Inl (Error (''Contract '' @ contract @ '' code id not found in refs.'')), w)
         \<and> new_actions w (snd (instantiate env w contract init_msg options spinner_arg)) = []"
  using assms
  by (simp add: instantiate_def instantiate_submit_def getCodeId_def new_actions_def)

theorem instantiate_without_code_id_witness:
  "codeIds (refs world0) (network sample_env, ''vault'') = None
   \<and> instantiate sample_env world0 ''vault'' JNull None SpinnerOmitted =
       (Inl (Error ''Contract vault code id not found in refs.''), world0)"
  using instantiate_without_code_id[of world0 sample_env "''vault''" JNull None SpinnerOmitted]
  by (simp add: world0_def empty_refs_def sample_env_def)

subsection \<open>storeCode: a rejected broadcast\<close>

text \<open>
  Claim C3. When the result of the broadcast made by \<open>storeCode\<close> carries a non-zero
  code, \<open>storeCode\<close> fails with an error whose message ends with the \<^verbatim>\<open>raw_log\<close> of
  the broadcast result, the waiter is not called, and the reference store and the
  files written from it are unchanged.
\<close>

theorem storeCode_broadcast_rejected:
  assumes "storeCode env w contract migrateCodeId spinner_arg = (out, w')"
    and "BroadcastSync tx \<in> set (new_actions w w')"
    and "broadcastSync env tx = Inr result"
    and "bc_code result = Some k" and "k \<noteq> 0"
  shows "out = Inl (Error (''Error storing wasm file for '' @ contract @ '':'' @ [CHR 0x0A]
                      @ bc_raw_log result))
         \<and> (\<forall>h. WaitForInclusion h \<notin> set (new_actions w w'))
         \<and> refs w' = refs w \<and> disk w' = disk w"
proof -
  let ?sp = "default_spinner spinner_arg"
  obtain r1 w1 where submit: "storeCode_submit env w contract migrateCodeId ?sp = (r1, w1)"
    by (cases "storeCode_submit env w contract migrateCodeId ?sp")
  show ?thesis
  proof (cases r1)
    case (Inl e)
    with submit assms(1) have out: "out = Inl e" "w' = w1"
      by (simp_all add: storeCode_def)
    from storeCode_submit_Inl[OF submit[unfolded Inl]] obtain acts where
      a: "refs w1 = refs w" "disk w1 = disk w" "trace w1 = trace w @ acts"
        "\<forall>h. WaitForInclusion h \<notin> set acts"
        "\<forall>tx result. BroadcastSync tx \<in> set acts \<and> broadcastSync env tx = Inr result \<longrightarrow>
           bc_code result \<noteq> None \<and>
           e = Error (''Error storing wasm file for '' @ contract @ '':'' @ [CHR 0x0A] @ bc_raw_log result)"
      by blast
    have new: "new_actions w w' = acts" using a(3) out(2) by (simp add: new_actions_eq)
    with assms(2,3) a(5) have "e = Error (''Error storing wasm file for '' @ contract @ '':'' @ [CHR 0x0A] @ bc_raw_log result)"
      by blast
    with out a new show ?thesis by simp
  next
    case (Inr p)
    obtain cwd0 result' where p: "p = (cwd0, result')" by (cases p)
    from storeCode_submit_Inr[OF submit[unfolded Inr p]] obtain acts1 tx' where
      bc: "broadcastSync env tx' = Inr result'" "bc_code result' = None"
      and w1: "trace w1 = trace w @ acts1"
      and only: "\<forall>t. BroadcastSync t \<in> set acts1 \<longrightarrow> t = tx'"
      by (auto simp: spin_actions_def split: option.splits)
    have "\<exists>acts2. trace w' = trace w1 @ acts2 \<and> (\<forall>t. BroadcastSync t \<notin> set acts2)"
    proof (cases "waitForInclusionInBlock env (bc_txhash result')")
      case (Inl e)
      with assms(1) submit Inr p show ?thesis
        by (auto simp: storeCode_def Let_def emit_simps)
    next
      case (Inr res)
      with assms(1) submit \<open>r1 = Inr p\<close> p have fin: "storeCode_finish env
          (spin ?sp Succeed (emit (WaitForInclusion (bc_txhash result')) w1))
          contract cwd0 ?sp res = (out, w')"
        by (simp add: storeCode_def Let_def)
      show ?thesis
      proof (cases out)
        case (Inl e)
        from storeCode_finish_Inl[OF fin[unfolded Inl]] show ?thesis
          by (auto simp: emit_simps spin_simps spin_actions_def split: option.splits)
      next
        case (Inr v)
        from storeCode_finish_Inr[OF fin[unfolded Inr]] show ?thesis
          by (auto simp: emit_simps spin_simps spin_actions_def split: option.splits)
      qed
    qed
    then obtain acts2 where "trace w' = trace w @ acts1 @ acts2" "\<forall>t. BroadcastSync t \<notin> set acts2"
      using w1 by auto
    then have "new_actions w w' = acts1 @ acts2" and "\<forall>t. BroadcastSync t \<in> set (acts1 @ acts2) \<longrightarrow> t = tx'"
      using only by (auto simp: new_actions_eq)
    with assms(2) have "tx = tx'" by auto
    with bc assms(3,4) show ?thesis by simp
  qed
qed

theorem storeCode_broadcast_rejected_witness:
  "BroadcastSync ''tx-store'' \<in> set (new_actions world0
       (snd (storeCode rejecting_env world0 ''vault'' None SpinnerOmitted)))
   \<and> broadcastSync rejecting_env ''tx-store''
       = Inr \<lparr>bc_txhash = ''C3'', bc_raw_log = ''out of gas'', bc_code = Some 5\<rparr>
   \<and> fst (storeCode rejecting_env world0 ''vault'' None SpinnerOmitted)
       = Inl (Error (''Error storing wasm file for vault:'' @ [CHR 0x0A] @ ''out of gas''))
   \<and> refs (snd (storeCode rejecting_env world0 ''vault'' None SpinnerOmitted)) = refs world0"
proof -
  let ?run = "storeCode rejecting_env world0 ''vault'' None SpinnerOmitted"
  have sent: "BroadcastSync ''tx-store'' \<in> set (new_actions world0 (snd ?run))"
    by code_simp
  have answer: "broadcastSync rejecting_env ''tx-store''
      = Inr \<lparr>bc_txhash = ''C3'', bc_raw_log = ''out of gas'', bc_code = Some 5\<rparr>"
    by (simp add: rejecting_env_def)
  have "?run = (fst ?run, snd ?run)" by simp
  from storeCode_broadcast_rejected[OF this sent answer, of 5]
  show ?thesis using sent answer by simp
qed

subsection \<open>instantiate: the address returned and recorded\<close>



subsection \<open>Failures of the extraction\<close>

text \<open>
  What the two methods raise when the value cannot be read. In \<open>storeCode\<close>, called
  with a spinner, the \<^verbatim>\<open>try\<close> of lines 165-191 covers the whole extraction: a raw log
  that \<^verbatim>\<open>JSON.parse\<close> rejects gives the \<^verbatim>\<open>Error\<close> with message
  \<^verbatim>\<open>Error parsing raw_log from store_code transaction: \<close> followed by the message of
  the parser, and a raw log that parses but has no \<^verbatim>\<open>code_id\<close> attribute of a
  \<^verbatim>\<open>store_code\<close> event in its first entry gives the \<^verbatim>\<open>Error\<close> with a message
  starting with \<^verbatim>\<open>Unexpcted Error: TypeError: \<close>. In \<open>instantiate\<close>, a raw log that
  \<^verbatim>\<open>JSON.parse\<close> rejects gives the \<^verbatim>\<open>Error\<close> with message
  \<^verbatim>\<open>Error instantiating \<close>, the contract, a colon, a newline and the raw log.
\<close>

theorem extraction_failures_are_errors:
  "(storeCode env w contract migrateCodeId spinner_arg = (out, w')
      \<and> spinner_arg \<noteq> SpinnerNull
      \<and> WaitForInclusion h \<in> set (new_actions w w')
      \<and> waitForInclusionInBlock env h = Inr res
    \<longrightarrow> (\<forall>m. JSON_parse env (raw_log_or_empty res) = Inl m \<longrightarrow>
            out = Inl (Error (''Error parsing raw_log from store_code transaction: '' @ m)))
      \<and> (\<forall>log. JSON_parse env (raw_log_or_empty res) = Inr log
              \<and> log_value log ''store_code'' ''code_id'' = None \<longrightarrow>
            (\<exists>t. out = Inl (Error (''Unexpcted Error: TypeError: '' @ t)))))
   \<and> (instantiate env wi contract init_msg options spinner_arg = (outi, wi')
      \<and> WaitForInclusion hi \<in> set (new_actions wi wi')
      \<and> waitForInclusionInBlock env hi = Inr (Some r)
      \<and> JSON_parse env (tx_raw_log r) = Inl mi
    \<longrightarrow> outi = Inl (Error (''Error instantiating '' @ contract @ '':'' @ [CHR 0x0A] @ tx_raw_log r)))"
proof (intro conjI impI allI; (elim conjE)?)
  fix m
  assume run: "storeCode env w contract migrateCodeId spinner_arg = (out, w')"
    and sp: "spinner_arg \<noteq> SpinnerNull"
    and waited: "WaitForInclusion h \<in> set (new_actions w w')"
      "waitForInclusionInBlock env h = Inr res"
    and bad: "JSON_parse env (raw_log_or_empty res) = Inl m"
  from sp obtain s where s: "default_spinner spinner_arg = Some s"
    by (cases spinner_arg) auto
  from storeCode_after_inclusion[OF run waited] obtain w2 where
    fin: "storeCode_finish env w2 contract (cwd w) (Some s) res = (out, w')"
    unfolding s by blast
  from storeCode_finish_caught[OF savedCodeId_malformed[OF bad], of w2 contract "cwd w" s] fin
  show "out = Inl (Error (''Error parsing raw_log from store_code transaction: '' @ m))"
    by simp
next
  fix log
  assume run: "storeCode env w contract migrateCodeId spinner_arg = (out, w')"
    and sp: "spinner_arg \<noteq> SpinnerNull"
    and waited: "WaitForInclusion h \<in> set (new_actions w w')"
      "waitForInclusionInBlock env h = Inr res"
    and parsed: "JSON_parse env (raw_log_or_empty res) = Inr log"
    and absent: "log_value log ''store_code'' ''code_id'' = None"
  from sp obtain s where s: "default_spinner spinner_arg = Some s"
    by (cases spinner_arg) auto
  from storeCode_after_inclusion[OF run waited] obtain w2 where
    fin: "storeCode_finish env w2 contract (cwd w) (Some s) res = (out, w')"
    unfolding s by blast
  obtain e where e: "savedCodeId env res = Inl e"
  proof (cases "savedCodeId env res")
    case (Inl e)
    then show ?thesis by (rule that)
  next
    case (Inr v)
    from savedCodeId_Inr[OF this] parsed absent show ?thesis by simp
  qed
  from savedCodeId_Inl[OF e] parsed have "type_error e" by auto
  then obtain t where t: "e = TypeError t" "t \<noteq> []" by (cases e) auto
  from storeCode_finish_caught[OF e, of w2 contract "cwd w" s] fin t
  have "out = Inl (Error (''Unexpcted Error: TypeError: '' @ t))"
    by (simp add: name_and_message_def)
  then show "\<exists>t. out = Inl (Error (''Unexpcted Error: TypeError: '' @ t))" by blast
next
  assume run: "instantiate env wi contract init_msg options spinner_arg = (outi, wi')"
    and waited: "WaitForInclusion hi \<in> set (new_actions wi wi')"
    and res: "waitForInclusionInBlock env hi = Inr (Some r)"
    and bad: "JSON_parse env (tx_raw_log r) = Inl mi"
  from instantiate_malformed[OF run waited res bad]
  show "outi = Inl (Error (''Error instantiating '' @ contract @ '':'' @ [CHR 0x0A] @ tx_raw_log r))" .
qed

theorem extraction_failures_are_errors_witness:
  "fst (storeCode malformed_env world0 ''vault'' None SpinnerOmitted)
     = Inl (Error ''Error parsing raw_log from store_code transaction: Unexpected token'')
   \<and> (\<exists>t. fst (storeCode no_events_env world0 ''vault'' None SpinnerOmitted)
          = Inl (Error (''Unexpcted Error: TypeError: '' @ t)))
   \<and> fst (instantiate malformed_env world1 ''vault'' JNull None SpinnerOmitted)
       = Inl (Error (''Error instantiating vault:'' @ [CHR 0x0A] @ ''out of gas''))"
proof -
  let ?bad = "storeCode malformed_env world0 ''vault'' None SpinnerOmitted"
  let ?none = "storeCode no_events_env world0 ''vault'' None SpinnerOmitted"
  let ?inst = "instantiate malformed_env world1 ''vault'' JNull None SpinnerOmitted"
  have bad_waited: "WaitForInclusion ''A1'' \<in> set (new_actions world0 (snd ?bad))"
    by code_simp
  have bad_res: "waitForInclusionInBlock malformed_env ''A1'' = Inr (Some \<lparr>tx_raw_log = ''out of gas''\<rparr>)"
    by (simp add: malformed_env_def)
  have bad_parse: "JSON_parse malformed_env (raw_log_or_empty (Some \<lparr>tx_raw_log = ''out of gas''\<rparr>))
      = Inl ''Unexpected token''"
    by code_simp
  have none_waited: "WaitForInclusion ''A1'' \<in> set (new_actions world0 (snd ?none))"
    by code_simp
  have none_res: "waitForInclusionInBlock no_events_env ''A1'' = Inr (Some \<lparr>tx_raw_log = no_events_text\<rparr>)"
    by (simp add: no_events_env_def)
  have none_parse: "JSON_parse no_events_env (raw_log_or_empty (Some \<lparr>tx_raw_log = no_events_text\<rparr>))
      = Inr no_events_log"
    by code_simp
  have none_value: "log_value no_events_log ''store_code'' ''code_id'' = None"
    by code_simp
  have inst_waited: "WaitForInclusion ''B2'' \<in> set (new_actions world1 (snd ?inst))"
    by code_simp
  have inst_res: "waitForInclusionInBlock malformed_env ''B2'' = Inr (Some \<lparr>tx_raw_log = ''out of gas''\<rparr>)"
    by (simp add: malformed_env_def)
  have inst_parse: "JSON_parse malformed_env (tx_raw_log \<lparr>tx_raw_log = ''out of gas''\<rparr>) = Inl ''Unexpected token''"
    by code_simp
  have a: "fst ?bad = Inl (Error ''Error parsing raw_log from store_code transaction: Unexpected token'')"
    and c: "fst ?inst = Inl (Error (''Error instantiating vault:'' @ [CHR 0x0A] @ ''out of gas''))"
    using extraction_failures_are_errors[where env = malformed_env and w = world0
        and contract = "''vault''" and migrateCodeId = None and spinner_arg = SpinnerOmitted
        and out = "fst ?bad" and w' = "snd ?bad" and h = "''A1''"
        and res = "Some \<lparr>tx_raw_log = ''out of gas''\<rparr>"
        and wi = world1 and init_msg = JNull and options = None
        and outi = "fst ?inst" and wi' = "snd ?inst" and hi = "''B2''"
        and r = "\<lparr>tx_raw_log = ''out of gas''\<rparr>" and mi = "''Unexpected token''"]
      bad_waited bad_res bad_parse inst_waited inst_res inst_parse
    by simp_all
  have b: "\<exists>t. fst ?none = Inl (Error (''Unexpcted Error: TypeError: '' @ t))"
    using extraction_failures_are_errors[where env = no_events_env and w = world0
        and contract = "''vault''" and migrateCodeId = None and spinner_arg = SpinnerOmitted
        and out = "fst ?none" and w' = "snd ?none" and h = "''A1''"
        and res = "Some \<lparr>tx_raw_log = no_events_text\<rparr>"]
      none_waited none_res none_parse none_value
    by simp
  from a b c show ?thesis by blast
qed

text \<open>
  Claim C5 fails on the code in \<open>instantiate\<close>: the \<^verbatim>\<open>try\<close> of lines 235-244 covers
  \<^verbatim>\<open>JSON.parse\<close> only, and lines 247-257 are outside it. For a raw log that is
  well-formed but has no event, the failure to extract the address reaches the caller
  as the \<^verbatim>\<open>TypeError\<close> of reading \<^verbatim>\<open>attributes\<close> of \<^verbatim>\<open>undefined\<close>, where
  \<open>storeCode\<close> wraps the same failure in its \<^verbatim>\<open>catch\<close>.
\<close>

theorem instantiate_missing_event_type_error:
  "JSON_parse no_events_env no_events_text = Inr no_events_log
   \<and> fst (instantiate no_events_env world1 ''vault'' JNull None SpinnerOmitted)
       = Inl (TypeError (''Cannot read properties of undefined (reading ''
                @ [CHR 0x27] @ ''attributes'' @ [CHR 0x27] @ '')''))"
  by code_simp

subsection \<open>The raw log in the error\<close>

text \<open>
  Claim C6, as amended. When the raw log of the transaction returned by the waiter to
  \<open>instantiate\<close> is rejected by \<^verbatim>\<open>JSON.parse\<close>, the error raised is an
  \<^verbatim>\<open>Error\<close> whose message contains that raw log verbatim.
\<close>

theorem instantiate_malformed_log_keeps_raw_log:
  assumes "instantiate env w contract init_msg options spinner_arg = (out, w')"
    and "WaitForInclusion h \<in> set (new_actions w w')"
    and "waitForInclusionInBlock env h = Inr (Some r)"
    and "JSON_parse env (tx_raw_log r) = Inl m"
  shows "\<exists>text. out = Inl (Error text) \<and> sublist (tx_raw_log r) text"
proof -
  let ?text = "''Error instantiating '' @ contract @ '':'' @ [CHR 0x0A] @ tx_raw_log r"
  have "out = Inl (Error ?text)"
    using assms by (rule instantiate_malformed)
  moreover have "sublist (tx_raw_log r) ?text"
    by (rule suffix_imp_sublist) (simp add: suffix_def)
  ultimately show ?thesis by blast
qed

theorem instantiate_malformed_log_keeps_raw_log_witness:
  "WaitForInclusion ''B2'' \<in> set (new_actions world1
       (snd (instantiate malformed_env world1 ''vault'' JNull None SpinnerOmitted)))
   \<and> waitForInclusionInBlock malformed_env ''B2'' = Inr (Some \<lparr>tx_raw_log = ''out of gas''\<rparr>)
   \<and> JSON_parse malformed_env ''out of gas'' = Inl ''Unexpected token''
   \<and> (\<exists>text. fst (instantiate malformed_env world1 ''vault'' JNull None SpinnerOmitted)
          = Inl (Error text) \<and> sublist ''out of gas'' text)"
proof -
  let ?inst = "instantiate malformed_env world1 ''vault'' JNull None SpinnerOmitted"
  have waited: "WaitForInclusion ''B2'' \<in> set (new_actions world1 (snd ?inst))"
    by code_simp
  have res: "waitForInclusionInBlock malformed_env ''B2'' = Inr (Some \<lparr>tx_raw_log = ''out of gas''\<rparr>)"
    by (simp add: malformed_env_def)
  have bad: "JSON_parse malformed_env (tx_raw_log \<lparr>tx_raw_log = ''out of gas''\<rparr>) = Inl ''Unexpected token''"
    by code_simp
  have "?inst = (fst ?inst, snd ?inst)" by simp
  from instantiate_malformed_log_keeps_raw_log[OF this waited res bad]
  show ?thesis using waited res bad by simp
qed

text \<open>
  The claim as stated fails in \<open>storeCode\<close>, whose \<^verbatim>\<open>catch\<close> puts the message of
  the exception into the error, not the raw log: for the raw log \<^verbatim>\<open>[{"events":[]}]\<close>
  the message does not contain the raw log.
\<close>

theorem storeCode_error_without_raw_log:
  "waitForInclusionInBlock no_events_env ''A1'' = Inr (Some \<lparr>tx_raw_log = no_events_text\<rparr>)
   \<and> fst (storeCode no_events_env world0 ''vault'' None SpinnerOmitted)
       = Inl (Error (''Unexpcted Error: TypeError: Cannot read properties of undefined (reading ''
                @ [CHR 0x27] @ ''attributes'' @ [CHR 0x27] @ '')''))
   \<and> \<not> sublist no_events_text
         (''Unexpcted Error: TypeError: Cannot read properties of undefined (reading ''
                @ [CHR 0x27] @ ''attributes'' @ [CHR 0x27] @ '')'')"
proof (intro conjI)
  show "waitForInclusionInBlock no_events_env ''A1'' = Inr (Some \<lparr>tx_raw_log = no_events_text\<rparr>)"
    by (simp add: no_events_env_def)
  show "fst (storeCode no_events_env world0 ''vault'' None SpinnerOmitted)
       = Inl (Error (''Unexpcted Error: TypeError: Cannot read properties of undefined (reading ''
                @ [CHR 0x27] @ ''attributes'' @ [CHR 0x27] @ '')''))"
    by code_simp
  show "\<not> sublist no_events_text
         (''Unexpcted Error: TypeError: Cannot read properties of undefined (reading ''
                @ [CHR 0x27] @ ''attributes'' @ [CHR 0x27] @ '')'')"
  proof
    assume "sublist no_events_text
         (''Unexpcted Error: TypeError: Cannot read properties of undefined (reading ''
                @ [CHR 0x27] @ ''attributes'' @ [CHR 0x27] @ '')'')"
    then have "set no_events_text \<subseteq> set
         (''Unexpcted Error: TypeError: Cannot read properties of undefined (reading ''
                @ [CHR 0x27] @ ''attributes'' @ [CHR 0x27] @ '')'')"
      by (rule set_mono_sublist)
    moreover have "CHR ''{'' \<in> set no_events_text"
      by (simp add: no_events_text_def)
    ultimately show False by auto
  qed
qed

subsection \<open>The account sequence\<close>

text \<open>
  A supplied sequence other than 0 and \<^verbatim>\<open>NaN\<close> is used without asking the signer;
  without a supplied sequence the signer is asked.
\<close>

lemma manualSequence_supplied:
  "supplied_sequence options = Some n \<Longrightarrow> truthy_number n \<Longrightarrow>
     manualSequence env w options = (Inr n, w)"
  by (simp add: manualSequence_def)

lemma manualSequence_absent:
  "supplied_sequence options = None \<Longrightarrow>
     manualSequence env w options = (signer_sequence env, emit QuerySequence w)"
  by (simp add: manualSequence_def)

text \<open>
  Claim C7 fails on the code for the supplied sequence 0, which \<^verbatim>\<open>||\<close> treats as
  absent: the signer is asked for its sequence (here 7), and the transaction is signed
  with 7, not with 0.
\<close>

theorem instantiate_sequence_zero_queries_signer:
  "new_actions world1 (snd (instantiate sample_env world1 ''vault'' JNull
       (Some \<lparr>opt_sequence = Some (Num 0), opt_admin = None, opt_coins = None, opt_label = None\<rparr>)
       SpinnerOmitted))
   = [Spinner DefaultDots Start, QuerySequence,
      CreateAndSignTx \<lparr>msgs = [MsgInstantiateContract ''terra1sender'' None (Some 42) JNull None
                                 ''Instantiate''],
                       tx_sequence = Some (Num 7), feeDenoms = Some [''uluna'']\<rparr>,
      BroadcastSync ''tx-instantiate'', WaitForInclusion ''B2'',
      Spinner DefaultDots Succeed, Spinner DefaultDots Succeed,
      SetAddress ''testnet'' ''vault'' (JStr ''terra1abc''),
      SaveRefs ''refs.json'' [''app/refs.json'']]"
  by code_simp

subsection \<open>storeCode: the message signed\<close>

text \<open>
  Every transaction that \<open>storeCode\<close> has signed contains exactly one message, which
  carries the base64 bytecode read from the artifact path: a migrate-code message with
  \<open>migrateCodeId\<close> when \<open>migrateCodeId\<close> is provided and truthy, and a store-new-code
  message otherwise.
\<close>

theorem storeCode_single_message:
  assumes "storeCode env w contract migrateCodeId spinner_arg = (out, w')"
    and "CreateAndSignTx opts \<in> set (new_actions w w')"
  shows "\<exists>bi wasmByteCode.
           contracts env contract = Some bi \<and>
           readFileBase64 env (path_join env [path_join env [cwd w, src bi], ''artifacts'',
               wasmByteCodeFilename (arm64 env) contract]) = Inr wasmByteCode \<and>
           msgs opts =
             [case migrateCodeId of
                None \<Rightarrow> MsgStoreCode (accAddress env) wasmByteCode
              | Some n \<Rightarrow> if truthy_number n then MsgMigrateCode (accAddress env) n wasmByteCode
                          else MsgStoreCode (accAddress env) wasmByteCode]"
proof -
  from storeCode_phases[OF assms(1)] obtain r1 w1 where
    submit: "storeCode_submit env w contract migrateCodeId (default_spinner spinner_arg) = (r1, w1)"
    and rest: "case r1 of
             Inl e \<Rightarrow> out = Inl e \<and> w' = w1
           | Inr (cwd0, result) \<Rightarrow>
              (case waitForInclusionInBlock env (bc_txhash result) of
                 Inl e \<Rightarrow> out = Inl e \<and> refs w' = refs w1 \<and> disk w' = disk w1 \<and>
                           trace w' = trace w1 @ [WaitForInclusion (bc_txhash result)]
               | Inr res \<Rightarrow>
                   (\<exists>w2 acts. refs w2 = refs w1 \<and> disk w2 = disk w1 \<and>
                      storeCode_finish env w2 contract cwd0 (default_spinner spinner_arg) res = (out, w') \<and>
                      trace w' = trace w1 @ WaitForInclusion (bc_txhash result) # acts \<and>
                      (\<forall>a \<in> set acts. a = Chdir cwd0 \<or> (\<exists>s k. a = Spinner s k)
                         \<or> (\<exists>n c v. a = SetCodeId n c v) \<or> (\<exists>b cs. a = SaveRefs b cs))))"
    by (elim exE conjE)
  from storeCode_submit_signed[OF submit] have
    w1: "trace w1 = trace w @ new_actions w w1"
    and signed: "\<forall>opts. CreateAndSignTx opts \<in> set (new_actions w w1) \<longrightarrow>
              (\<exists>bi code. contracts env contract = Some bi \<and>
                 readFileBase64 env (path_join env [path_join env [cwd w, src bi], ''artifacts'',
                     wasmByteCodeFilename (arm64 env) contract]) = Inr code \<and>
                 opts = \<lparr>msgs = [store_msg (accAddress env) migrateCodeId code],
                          tx_sequence = None, feeDenoms = None\<rparr>)"
    by simp_all
  have "\<exists>acts2. trace w' = trace w1 @ acts2 \<and> (\<forall>x. CreateAndSignTx x \<notin> set acts2)"
  proof (cases r1)
    case (Inl e)
    with rest show ?thesis by simp
  next
    case (Inr p)
    obtain cwd0 result where p: "p = (cwd0, result)" by (cases p)
    show ?thesis
    proof (cases "waitForInclusionInBlock env (bc_txhash result)")
      case (Inl e)
      with rest \<open>r1 = Inr p\<close> p show ?thesis by simp
    next
      case (Inr res)
      with rest \<open>r1 = Inr p\<close> p obtain acts where
        "trace w' = trace w1 @ WaitForInclusion (bc_txhash result) # acts"
        "\<forall>a \<in> set acts. a = Chdir cwd0 \<or> (\<exists>s k. a = Spinner s k)
                         \<or> (\<exists>n c v. a = SetCodeId n c v) \<or> (\<exists>b cs. a = SaveRefs b cs)"
        by auto
      then show ?thesis
        by (intro exI[of _ "WaitForInclusion (bc_txhash result) # acts"]) auto
    qed
  qed
  then obtain acts2 where "trace w' = trace w @ new_actions w w1 @ acts2"
    "\<forall>x. CreateAndSignTx x \<notin> set acts2"
    using w1 by auto
  then have "new_actions w w' = new_actions w w1 @ acts2" "\<forall>x. CreateAndSignTx x \<notin> set acts2"
    by (simp_all add: new_actions_eq)
  with assms(2) have "CreateAndSignTx opts \<in> set (new_actions w w1)" by auto
  with signed obtain bi code where
    found: "contracts env contract = Some bi"
      "readFileBase64 env (path_join env [path_join env [cwd w, src bi], ''artifacts'',
                     wasmByteCodeFilename (arm64 env) contract]) = Inr code"
      "opts = \<lparr>msgs = [store_msg (accAddress env) migrateCodeId code],
                          tx_sequence = None, feeDenoms = None\<rparr>"
    by blast
  have "msgs opts =
             [case migrateCodeId of
                None \<Rightarrow> MsgStoreCode (accAddress env) code
              | Some n \<Rightarrow> if truthy_number n then MsgMigrateCode (accAddress env) n code
                          else MsgStoreCode (accAddress env) code]"
    by (simp add: found(3) store_msg_def split: option.splits)
  with found(1,2) show ?thesis by blast
qed

theorem storeCode_single_message_witness:
  "CreateAndSignTx \<lparr>msgs = [MsgMigrateCode ''terra1sender'' (Num 7) ''AGFzbQ==''],
                     tx_sequence = None, feeDenoms = None\<rparr>
     \<in> set (new_actions world0 (snd (storeCode sample_env world0 ''vault'' (Some (Num 7)) SpinnerOmitted)))
   \<and> (\<exists>wasmByteCode.
         readFileBase64 sample_env ''/work/contracts/vault/artifacts/vault.wasm'' = Inr wasmByteCode
         \<and> [MsgMigrateCode ''terra1sender'' (Num 7) ''AGFzbQ==''] = [MsgMigrateCode ''terra1sender'' (Num 7) wasmByteCode])"
proof -
  let ?run = "storeCode sample_env world0 ''vault'' (Some (Num 7)) SpinnerOmitted"
  let ?opts = "\<lparr>msgs = [MsgMigrateCode ''terra1sender'' (Num 7) ''AGFzbQ==''],
                     tx_sequence = None, feeDenoms = None\<rparr>"
  have signed: "CreateAndSignTx ?opts \<in> set (new_actions world0 (snd ?run))"
    by code_simp
  have "?run = (fst ?run, snd ?run)" by simp
  from storeCode_single_message[OF this signed]
  show ?thesis using signed
    by (auto simp: sample_env_def world0_def wasmByteCodeFilename_def)
qed

text \<open>
  Claim C8 fails on the code for the provided \<open>migrateCodeId\<close> 0, which the
  conditional on line 144 treats as absent: a store-new-code message is signed, not a
  migrate-code message carrying 0.
\<close>

theorem storeCode_migrate_zero_stores_new_code:
  "CreateAndSignTx \<lparr>msgs = [MsgStoreCode ''terra1sender'' ''AGFzbQ==''],
                     tx_sequence = None, feeDenoms = None\<rparr>
     \<in> set (new_actions world0 (snd (storeCode sample_env world0 ''vault'' (Some (Num 0)) SpinnerOmitted)))"
  by code_simp

subsection \<open>instantiate: the broadcast result is not inspected\<close>

text \<open>
  Claim C9. \<open>instantiate\<close> never looks at the code of the broadcast result: replacing
  the code of every broadcast result by any \<open>k\<close> changes neither the outcome nor the
  calls made. Whenever a broadcast returns a result, with or without a code, the waiter
  is called with the hash of that result.
\<close>

theorem instantiate_ignores_broadcast_code:
  "instantiate (env\<lparr>broadcastSync := \<lambda>t. map_sum id (\<lambda>r. r\<lparr>bc_code := k\<rparr>) (broadcastSync env t)\<rparr>)
       w contract init_msg options spinner_arg
     = instantiate env w contract init_msg options spinner_arg
   \<and> (instantiate env w contract init_msg options spinner_arg = (out, w')
        \<and> BroadcastSync tx \<in> set (new_actions w w') \<and> broadcastSync env tx = Inr result
      \<longrightarrow> WaitForInclusion (bc_txhash result) \<in> set (new_actions w w'))"
proof
  let ?env' = "env\<lparr>broadcastSync := \<lambda>t. map_sum id (\<lambda>r. r\<lparr>bc_code := k\<rparr>) (broadcastSync env t)\<rparr>"
  have p: "parse ?env' = parse env"
    by (simp add: fun_eq_iff parse_def)
  have ip: "instantiate_parse ?env' = instantiate_parse env"
    by (rule ext) (simp add: instantiate_parse_def p split: option.splits)
  have il: "instantiate_log ?env' = instantiate_log env"
    by (intro ext) (simp add: instantiate_log_def ip)
  have sv: "save ?env' = save env"
    by (simp add: fun_eq_iff save_def)
  have fin: "instantiate_finish ?env' = instantiate_finish env"
    by (intro ext) (simp add: instantiate_finish_def sv Let_def split: sum.splits option.splits)
  show "instantiate ?env' w contract init_msg options spinner_arg
     = instantiate env w contract init_msg options spinner_arg"
    unfolding instantiate_def il fin instantiate_submit_code_irrelevant by (rule refl)
next
  let ?sp = "default_spinner spinner_arg"
  show "instantiate env w contract init_msg options spinner_arg = (out, w')
        \<and> BroadcastSync tx \<in> set (new_actions w w') \<and> broadcastSync env tx = Inr result
      \<longrightarrow> WaitForInclusion (bc_txhash result) \<in> set (new_actions w w')"
  proof (intro impI, elim conjE)
    assume run: "instantiate env w contract init_msg options spinner_arg = (out, w')"
      and sent: "BroadcastSync tx \<in> set (new_actions w w')"
      and answer: "broadcastSync env tx = Inr result"
    obtain r1 w1 where submit: "instantiate_submit env w contract init_msg options ?sp = (r1, w1)"
      by (cases "instantiate_submit env w contract init_msg options ?sp")
    from instantiate_submit_world[OF submit] obtain acts1 where
      w1: "trace w1 = trace w @ acts1"
      and waited: "\<forall>tx result. BroadcastSync tx \<in> set acts1 \<and> broadcastSync env tx = Inr result \<longrightarrow>
               WaitForInclusion (bc_txhash result) \<in> set acts1"
      by blast
    have "\<exists>acts2. trace w' = trace w1 @ acts2 \<and> (\<forall>t. BroadcastSync t \<notin> set acts2)"
    proof (cases r1)
      case (Inl e)
      with run submit show ?thesis by (simp add: instantiate_def)
    next
      case (Inr res)
      obtain r2 w2 where parsed: "instantiate_log env w1 contract ?sp res = (r2, w2)"
        by (cases "instantiate_log env w1 contract ?sp res")
      from instantiate_log_world[OF parsed] obtain actsl where
        w2: "trace w2 = trace w1 @ actsl" "\<forall>a \<in> set actsl. \<exists>s k. a = Spinner s k"
        by blast
      show ?thesis
      proof (cases r2)
        case (Inl e)
        with run submit \<open>r1 = Inr res\<close> parsed have "w' = w2" by (simp add: instantiate_def)
        with w2 show ?thesis by auto
      next
        case (Inr log)
        with run submit \<open>r1 = Inr res\<close> parsed
        have "instantiate_finish env w2 contract ?sp res log = (out, w')"
          by (simp add: instantiate_def)
        from instantiate_finish_world[OF this] obtain actsf where
          "trace w' = trace w2 @ actsf"
          "\<forall>a \<in> set actsf. (\<exists>s k. a = Spinner s k) \<or> (\<exists>n c v. a = SetAddress n c v)
              \<or> (\<exists>b cs. a = SaveRefs b cs)"
          by blast
        with w2 have "trace w' = trace w1 @ (actsl @ actsf) \<and> (\<forall>t. BroadcastSync t \<notin> set (actsl @ actsf))"
          by auto
        then show ?thesis by blast
      qed
    qed
    then obtain acts2 where "trace w' = trace w @ acts1 @ acts2" "\<forall>t. BroadcastSync t \<notin> set acts2"
      using w1 by auto
    then have new: "new_actions w w' = acts1 @ acts2" and "BroadcastSync tx \<in> set acts1"
      using sent by (auto simp: new_actions_eq)
    with waited answer show "WaitForInclusion (bc_txhash result) \<in> set (new_actions w w')"
      by auto
  qed
qed

theorem instantiate_ignores_broadcast_code_witness:
  "BroadcastSync ''tx-instantiate'' \<in> set (new_actions world1
       (snd (instantiate rejecting_env world1 ''vault'' JNull None SpinnerOmitted)))
   \<and> broadcastSync rejecting_env ''tx-instantiate''
       = Inr \<lparr>bc_txhash = ''C3'', bc_raw_log = ''out of gas'', bc_code = Some 5\<rparr>
   \<and> WaitForInclusion ''C3'' \<in> set (new_actions world1
       (snd (instantiate rejecting_env world1 ''vault'' JNull None SpinnerOmitted)))"
proof -
  let ?run = "instantiate rejecting_env world1 ''vault'' JNull None SpinnerOmitted"
  have sent: "BroadcastSync ''tx-instantiate'' \<in> set (new_actions world1 (snd ?run))"
    by code_simp
  have answer: "broadcastSync rejecting_env ''tx-instantiate''
      = Inr \<lparr>bc_txhash = ''C3'', bc_raw_log = ''out of gas'', bc_code = Some 5\<rparr>"
    by (simp add: rejecting_env_def)
  have "?run = (fst ?run, snd ?run)" by simp
  with instantiate_ignores_broadcast_code[where env = rejecting_env and w = world1
      and contract = "''vault''" and init_msg = JNull and options = None
      and spinner_arg = SpinnerOmitted and out = "fst ?run" and w' = "snd ?run"
      and tx = "''tx-instantiate''"
      and result = "\<lparr>bc_txhash = ''C3'', bc_raw_log = ''out of gas'', bc_code = Some 5\<rparr>"]
    sent answer
  show ?thesis by simp
qed

subsection \<open>storeCode: the spinner argument\<close>

text \<open>
  Claim C10, as amended. \<open>storeCode\<close> called with the spinner \<^verbatim>\<open>undefined\<close> is
  \<open>storeCode\<close> called without a spinner argument: the default spinner is used. Only
  with the spinner \<^verbatim>\<open>null\<close> are the unguarded calls of lines 173 and 183 reached
  without a spinner: then, once the waiter has returned, the call throws the
  \<^verbatim>\<open>TypeError\<close> of \<^verbatim>\<open>spinner.fail\<close> and the reference store is not updated.
\<close>

theorem storeCode_spinner_undefined_is_default:
  "storeCode env w contract migrateCodeId SpinnerUndefined
     = storeCode env w contract migrateCodeId SpinnerOmitted
   \<and> (storeCode env w contract migrateCodeId SpinnerNull = (out, w')
        \<and> WaitForInclusion h \<in> set (new_actions w w')
        \<and> waitForInclusionInBlock env h = Inr res
      \<longrightarrow> out = Inl (TypeError (''Cannot read properties of null (reading ''
                        @ [CHR 0x27] @ ''fail'' @ [CHR 0x27] @ '')''))
          \<and> refs w' = refs w \<and> disk w' = disk w)"
proof (intro conjI impI; (elim conjE)?)
  show "storeCode env w contract migrateCodeId SpinnerUndefined
     = storeCode env w contract migrateCodeId SpinnerOmitted"
    by (simp add: storeCode_def)
next
  assume run: "storeCode env w contract migrateCodeId SpinnerNull = (out, w')"
    and waited: "WaitForInclusion h \<in> set (new_actions w w')"
      "waitForInclusionInBlock env h = Inr res"
  from storeCode_after_inclusion[OF run waited] obtain w2 where
    same: "refs w2 = refs w" "disk w2 = disk w"
    and fin: "storeCode_finish env w2 contract (cwd w) None res = (out, w')"
    by auto
  from storeCode_finish_no_spinner[OF fin] same
  show "out = Inl (TypeError (''Cannot read properties of null (reading ''
                        @ [CHR 0x27] @ ''fail'' @ [CHR 0x27] @ '')''))"
    and "refs w' = refs w" and "disk w' = disk w"
    by (simp_all add: cannot_read_def)
qed

theorem storeCode_spinner_undefined_is_default_witness:
  "WaitForInclusion ''A1'' \<in> set (new_actions world0
       (snd (storeCode sample_env world0 ''vault'' None SpinnerNull)))
   \<and> waitForInclusionInBlock sample_env ''A1'' = Inr (Some \<lparr>tx_raw_log = store_log_text\<rparr>)
   \<and> fst (storeCode sample_env world0 ''vault'' None SpinnerNull)
       = Inl (TypeError (''Cannot read properties of null (reading ''
                        @ [CHR 0x27] @ ''fail'' @ [CHR 0x27] @ '')''))
   \<and> refs (snd (storeCode sample_env world0 ''vault'' None SpinnerNull)) = refs world0"
proof -
  let ?run = "storeCode sample_env world0 ''vault'' None SpinnerNull"
  have waited: "WaitForInclusion ''A1'' \<in> set (new_actions world0 (snd ?run))"
    by code_simp
  have res: "waitForInclusionInBlock sample_env ''A1'' = Inr (Some \<lparr>tx_raw_log = store_log_text\<rparr>)"
    by (simp add: sample_env_def sample_wait_def)
  have "?run = (fst ?run, snd ?run)" by simp
  with storeCode_spinner_undefined_is_default[where env = sample_env and w = world0
      and contract = "''vault''" and migrateCodeId = None and out = "fst ?run" and w' = "snd ?run"
      and h = "''A1''" and res = "Some \<lparr>tx_raw_log = store_log_text\<rparr>"]
    waited res
  show ?thesis by simp
qed

text \<open>
  The claim C10 as stated fails: an \<^verbatim>\<open>undefined\<close> argument gets the default value,
  so the upload succeeds and the reference store is updated.
\<close>

theorem storeCode_spinner_undefined_succeeds:
  "fst (storeCode sample_env world0 ''vault'' None SpinnerUndefined) = Inr (JStr ''42'')
   \<and> getCodeId (refs (snd (storeCode sample_env world0 ''vault'' None SpinnerUndefined)))
         ''testnet'' ''vault'' = JStr ''42''"
  by code_simp

end
